theory Spec2Isabelle
  imports Main
begin

section \<open>Types, shapes and the emitted operator graph\<close>

text \<open>
  The legalizations of \<^verbatim>\<open>lib/Conversion/TorchToTosa/TorchToTosa.cpp\<close> inspect the static
  type of their operands and emit target operators. A static type is a shape (a list of
  64-bit sizes) with an element type. The model covers ranked tensor types, the case in
  which the \<^verbatim>\<open>cast<RankedTensorType>()\<close> at the head of the patterns is defined.
\<close>

datatype elemType = FloatType nat | IntegerType nat | OtherType

fun isIntOrFloat :: "elemType \<Rightarrow> bool" where
  "isIntOrFloat (FloatType w) = True"
| "isIntOrFloat (IntegerType w) = True"
| "isIntOrFloat OtherType = False"

fun isFloatType :: "elemType \<Rightarrow> bool" where
  "isFloatType (FloatType w) = True"
| "isFloatType (IntegerType w) = False"
| "isFloatType OtherType = False"

fun isIntegerType :: "elemType \<Rightarrow> bool" where
  "isIntegerType (FloatType w) = False"
| "isIntegerType (IntegerType w) = True"
| "isIntegerType OtherType = False"

datatype rankedTensorType = RankedTensorType (getShape: "int list") (getElementType: elemType)

definition getRank :: "rankedTensorType \<Rightarrow> int" where
  "getRank ty = int (length (getShape ty))"

text \<open>
  Two sentinels mark a size that is not known statically: \<^verbatim>\<open>kUnknownSize\<close> in the shapes
  of the source dialect and \<^verbatim>\<open>ShapedType::kDynamic\<close> in the shapes of builtin tensor
  types. Both are declared in headers outside this file, so the model takes them as a
  parameter \<open>c\<close>. The code compares accumulated sizes with \<open>0\<close> to detect the first
  sentinel, so both are taken negative wherever a statement depends on it
  (\<open>markersNegative\<close>).
\<close>

record shapeMarkers =
  kUnknownSize :: int
  kDynamic :: int

definition markersNegative :: "shapeMarkers \<Rightarrow> bool" where
  "markersNegative c = (kUnknownSize c < 0 \<and> kDynamic c < 0)"

definition isDynamic :: "shapeMarkers \<Rightarrow> int \<Rightarrow> bool" where
  "isDynamic c d = (d = kDynamic c)"

definition hasStaticShape :: "shapeMarkers \<Rightarrow> rankedTensorType \<Rightarrow> bool" where
  "hasStaticShape c ty = (\<not> list_ex (isDynamic c) (getShape ty))"

text \<open>
  Modelled from the spec: \<^verbatim>\<open>makeShapeTorchCompatible\<close> and \<^verbatim>\<open>makeShapeLLVMCompatible\<close>
  are defined in the dialect's utilities, not in this file. The spec describes them as the
  normalization between the two shape representations: the first rewrites the builtin
  dynamic marker to the source dialect's sentinel, the second rewrites it back.
\<close>

definition makeShapeTorchCompatible :: "shapeMarkers \<Rightarrow> int list \<Rightarrow> int list" where
  "makeShapeTorchCompatible c shape =
     map (\<lambda>d. if d = kDynamic c then kUnknownSize c else d) shape"

definition makeShapeLLVMCompatible :: "shapeMarkers \<Rightarrow> int list \<Rightarrow> int list" where
  "makeShapeLLVMCompatible c shape =
     map (\<lambda>d. if d = kUnknownSize c then kDynamic c else d) shape"

text \<open>
  A legalization either succeeds or returns a failure carrying its reason:
  \<^verbatim>\<open>notifyMatchFailure\<close>, \<^verbatim>\<open>emitError\<close>, or a failed assertion (an \<^verbatim>\<open>assert\<close> of this
  file, or an out-of-range read of a shape vector, which trips the container's own).
\<close>

datatype failure = MatchFailure string | EmitError string | AssertionFailure string

text \<open>
  A scalar operand is a constant float, a constant integer, or anything else (a value
  known only at run time, or \<^verbatim>\<open>None\<close>); the matchers \<^verbatim>\<open>m_TorchConstantFloat\<close> and
  \<^verbatim>\<open>m_TorchConstantInt\<close> succeed on the first two respectively. The type \<open>'d\<close> stands
  for C++ \<^verbatim>\<open>double\<close>. Other constant operands (a bool, a list of ints) either hold a
  constant or do not.
\<close>

datatype 'd torchScalar = TorchConstantFloat 'd | TorchConstantInt int | NotConstantScalar

datatype 'a torchConstant = Constant 'a | NotConstant

text \<open>
  The values a pattern handles form the dataflow graph it builds: an operand that comes
  from outside the pattern, or the result of an emitted operator, which records its
  declared result type, its inputs and its attributes. Constant tensors are built by
  \<^verbatim>\<open>tosa::getConstTensor<T>\<close> from a vector of values of the C++ type \<open>T\<close> and a shape,
  or by \<^verbatim>\<open>getTosaConstTensorSingleF32\<close>.
\<close>

datatype tosaBinaryOp = AddOp | SubOp | GreaterOp | EqualOp
  | BitwiseAndOp | BitwiseOrOp | BitwiseXorOp

datatype 'd constVec = FloatVec "'d list" | Int32Vec "int list" | Int64Vec "int list"

datatype 'd val =
    Operand string rankedTensorType
  | ConstTensor "'d constVec" "int list"
  | ConstTensorSingleF32 int
  | PromoteType rankedTensorType "'d val"
  | ReshapeOp rankedTensorType "'d val" "int list"
  | TransposeOp rankedTensorType "'d val" "'d val"
  | MatMulOp rankedTensorType "'d val" "'d val"
  | CastOp rankedTensorType "'d val"
  | MulOp rankedTensorType "'d val" "'d val" int
  | BinaryOp tosaBinaryOp rankedTensorType "'d val" "'d val"
  | LogicalNotOp rankedTensorType "'d val"
  | ArgMaxOp rankedTensorType "'d val" int
  | GatherOp rankedTensorType "'d val" "'d val"
  | ExtSIOp rankedTensorType "'d val"
  | TensorCastOp rankedTensorType "'d val"

text \<open>
  Modelled from the spec: the type of a constant tensor is chosen by the helpers that
  build it, \<^verbatim>\<open>tosa::getConstTensor<T>\<close> and \<^verbatim>\<open>getTosaConstTensorSingleF32\<close>, which are
  not in this file. The spec has a lifted scalar materialize as a tensor of the requested
  shape whose element kind is that of \<open>T\<close> (a float tensor, or an integer tensor of 32 or
  64 bits); the single-F32 helper gives a rank-0 float tensor.
\<close>

fun constVecElemType :: "'d constVec \<Rightarrow> elemType" where
  "constVecElemType (FloatVec v) = FloatType 32"
| "constVecElemType (Int32Vec v) = IntegerType 32"
| "constVecElemType (Int64Vec v) = IntegerType 64"

text \<open>
  The ranked tensor type of a value: the operand's own type, the declared result type of
  the operator, or the type of the constant tensor.
\<close>

fun getType :: "'d val \<Rightarrow> rankedTensorType" where
  "getType (Operand n ty) = ty"
| "getType (ConstTensor v s) = RankedTensorType s (constVecElemType v)"
| "getType (ConstTensorSingleF32 a) = RankedTensorType [] (FloatType 32)"
| "getType (PromoteType ty x) = ty"
| "getType (ReshapeOp ty x s) = ty"
| "getType (TransposeOp ty x p) = ty"
| "getType (MatMulOp ty a b) = ty"
| "getType (CastOp ty x) = ty"
| "getType (MulOp ty a b sh) = ty"
| "getType (BinaryOp opc ty a b) = ty"
| "getType (LogicalNotOp ty x) = ty"
| "getType (ArgMaxOp ty x d) = ty"
| "getType (GatherOp ty a b) = ty"
| "getType (ExtSIOp ty x) = ty"
| "getType (TensorCastOp ty x) = ty"

text \<open>
  An operand of a source operator is a tensor value or a scalar
  (\<^verbatim>\<open>dyn_cast<TensorType>\<close> of its type is null for a scalar).
\<close>

datatype 'd operand = TensorOperand "'d val" | ScalarOperand "'d torchScalar"

section \<open>Squeeze\<close>

text \<open>
  \<^verbatim>\<open>ConvertAtenSqueezeOneDimOp::generateSqueezedShape\<close>: the loop keeps a dimension
  unless its size is \<open>1\<close> and its position is \<open>squeezeDim\<close>; \<open>dimNum\<close> counts positions.
\<close>

fun squeezeOneDimLoop :: "int \<Rightarrow> nat \<Rightarrow> int list \<Rightarrow> int list" where
  "squeezeOneDimLoop squeezeDim dimNum [] = []"
| "squeezeOneDimLoop squeezeDim dimNum (dim # rest) =
     (if dim \<noteq> 1 \<or> squeezeDim \<noteq> int dimNum
      then dim # squeezeOneDimLoop squeezeDim (Suc dimNum) rest
      else squeezeOneDimLoop squeezeDim (Suc dimNum) rest)"

definition generateSqueezedShapeOneDim ::
  "shapeMarkers \<Rightarrow> int torchConstant \<Rightarrow> rankedTensorType \<Rightarrow> failure + int list" where
  "generateSqueezedShapeOneDim c dimArg selfTy =
     (case dimArg of
        NotConstant \<Rightarrow> Inl (MatchFailure ''non-const dim parameter unsupported'')
      | Constant d \<Rightarrow>
          (let squeezeDim = (if d < 0 then d + getRank selfTy else d);
               selfShape = makeShapeTorchCompatible c (getShape selfTy)
           in Inr (squeezeOneDimLoop squeezeDim 0 selfShape)))"

text \<open>
  \<^verbatim>\<open>ConvertAtenSqueezeAllDimsOp::generateSqueezedShape\<close>: the loop keeps every dimension
  whose size is not \<open>1\<close>.
\<close>

fun squeezeAllDimsLoop :: "int list \<Rightarrow> int list" where
  "squeezeAllDimsLoop [] = []"
| "squeezeAllDimsLoop (dim # rest) =
     (if dim \<noteq> 1 then dim # squeezeAllDimsLoop rest else squeezeAllDimsLoop rest)"

definition generateSqueezedShapeAllDims ::
  "shapeMarkers \<Rightarrow> rankedTensorType \<Rightarrow> failure + int list" where
  "generateSqueezedShapeAllDims c selfTy =
     Inr (squeezeAllDimsLoop (makeShapeTorchCompatible c (getShape selfTy)))"

text \<open>
  \<^verbatim>\<open>ConvertAtenSqueezeOp::matchAndRewrite\<close>, given the variant's shape computation:
  a reshape to the squeezed shape followed by a tensor cast, both of the new type.
\<close>

definition squeezeMatchAndRewrite ::
  "shapeMarkers \<Rightarrow> (rankedTensorType \<Rightarrow> failure + int list) \<Rightarrow> 'd val
     \<Rightarrow> rankedTensorType \<Rightarrow> failure + 'd val" where
  "squeezeMatchAndRewrite c generateSqueezedShape self resultTy =
     (case generateSqueezedShape (getType self) of
        Inl e \<Rightarrow> Inl (MatchFailure ''Squeeze could not compute new shape'')
      | Inr newOutputShape \<Rightarrow>
          (let newOutputTy = RankedTensorType (makeShapeLLVMCompatible c newOutputShape)
                               (getElementType resultTy);
               reshapeOp = ReshapeOp newOutputTy self newOutputShape
           in Inr (TensorCastOp newOutputTy reshapeOp)))"

text \<open>
  The values of the sentinels used to run the model on concrete shapes:
  \<^verbatim>\<open>kUnknownSize = -1\<close> and \<^verbatim>\<open>ShapedType::kDynamic = INT64_MIN\<close>.
\<close>

definition torchMlirMarkers :: shapeMarkers where
  "torchMlirMarkers = \<lparr>kUnknownSize = - 1, kDynamic = - 9223372036854775808\<rparr>"

section \<open>Lifting a scalar constant to a tensor\<close>

text \<open>
  The range check converts a \<^verbatim>\<open>double\<close> to an integer type and back and compares the
  result with the original. The model does not fix the arithmetic of \<^verbatim>\<open>double\<close>: the
  three operations the code applies to it are a parameter \<open>fp\<close>, so every statement
  holds for whatever these conversions compute.
\<close>

record 'd doubleOps =
  toInt32 :: "'d \<Rightarrow> int"
  toInt64 :: "'d \<Rightarrow> int"
  fromInt :: "int \<Rightarrow> 'd"
  doubleEq :: "'d \<Rightarrow> 'd \<Rightarrow> bool"

datatype cppInt = Int32T | Int64T

fun numericLimitsMin :: "cppInt \<Rightarrow> int" where
  "numericLimitsMin Int32T = - 2147483648"
| "numericLimitsMin Int64T = - 9223372036854775808"

fun numericLimitsMax :: "cppInt \<Rightarrow> int" where
  "numericLimitsMax Int32T = 2147483647"
| "numericLimitsMax Int64T = 9223372036854775807"

fun staticCastDoubleTo :: "'d doubleOps \<Rightarrow> cppInt \<Rightarrow> 'd \<Rightarrow> int" where
  "staticCastDoubleTo fp Int32T v = toInt32 fp v"
| "staticCastDoubleTo fp Int64T v = toInt64 fp v"

text \<open>
  \<^verbatim>\<open>isInValidRange<T>(isFloat, doubleValue, isInt, intValue)\<close>. The four arguments are
  the two matchers' results, here the scalar itself; a scalar that matched neither
  trips \<^verbatim>\<open>assert(isInt)\<close>.
\<close>

fun isInValidRange :: "'d doubleOps \<Rightarrow> cppInt \<Rightarrow> 'd torchScalar \<Rightarrow> failure + bool" where
  "isInValidRange fp T (TorchConstantFloat doubleValue) =
     Inr (doubleEq fp doubleValue (fromInt fp (staticCastDoubleTo fp T doubleValue)))"
| "isInValidRange fp T (TorchConstantInt intValue) =
     Inr (intValue \<ge> numericLimitsMin T \<and> intValue \<le> numericLimitsMax T)"
| "isInValidRange fp T NotConstantScalar = Inl (AssertionFailure ''isInt'')"

text \<open>
  \<^verbatim>\<open>torchScalarToTosaTensor\<close>. The stored 32-bit value of an integer constant is
  \<^verbatim>\<open>static_cast<int32_t>(intValue)\<close>, which keeps the low 32 bits.
\<close>

definition rangeViolation :: failure where
  "rangeViolation =
     MatchFailure ''Supplied value of scalar constant exceeds limits of destination type''"

fun torchScalarToTosaTensor ::
  "'d doubleOps \<Rightarrow> 'd torchScalar \<Rightarrow> elemType \<Rightarrow> int list \<Rightarrow> failure + 'd val" where
  "torchScalarToTosaTensor fp NotConstantScalar dtype dshape =
     Inl (MatchFailure ''Unable to extract the scalar constant'')"
| "torchScalarToTosaTensor fp scalar (FloatType fw) dshape =
     Inr (ConstTensor
            (FloatVec [case scalar of TorchConstantFloat doubleValue \<Rightarrow> doubleValue
                       | TorchConstantInt intValue \<Rightarrow> fromInt fp intValue]) dshape)"
| "torchScalarToTosaTensor fp scalar (IntegerType w) dshape =
     (if w \<noteq> 32 \<and> w \<noteq> 64 then Inl (MatchFailure ''Unsupported integer type'')
      else if w = 32 then
        (case isInValidRange fp Int32T scalar of
           Inl e \<Rightarrow> Inl e
         | Inr ok \<Rightarrow>
             if \<not> ok then Inl rangeViolation
             else Inr (ConstTensor
                         (Int32Vec [case scalar of
                                      TorchConstantFloat doubleValue \<Rightarrow> toInt32 fp doubleValue
                                    | TorchConstantInt intValue \<Rightarrow> signed_take_bit 31 intValue])
                         dshape))
      else
        (case isInValidRange fp Int64T scalar of
           Inl e \<Rightarrow> Inl e
         | Inr ok \<Rightarrow>
             if \<not> ok then Inl rangeViolation
             else Inr (ConstTensor
                         (Int64Vec [case scalar of
                                      TorchConstantFloat doubleValue \<Rightarrow> toInt64 fp doubleValue
                                    | TorchConstantInt intValue \<Rightarrow> intValue])
                         dshape)))"
| "torchScalarToTosaTensor fp scalar OtherType dshape =
     Inl (MatchFailure ''Usupported element type'')"

text \<open>
  \<^verbatim>\<open>torchAlphaToTosaTensor\<close>: the lifted scalar if lifting succeeds; otherwise a constant
  integer alpha (subject to the unity check) becomes a single-F32 constant.
\<close>

definition torchAlphaToTosaTensor ::
  "'d doubleOps \<Rightarrow> 'd torchScalar \<Rightarrow> elemType \<Rightarrow> bool \<Rightarrow> failure + 'd val" where
  "torchAlphaToTosaTensor fp alphaScalar dtype checkForUnity =
     (case torchScalarToTosaTensor fp alphaScalar dtype [] of
        Inr alphaTensor \<Rightarrow> Inr alphaTensor
      | Inl e \<Rightarrow>
          (case alphaScalar of
             TorchConstantInt alphaValue \<Rightarrow>
               if checkForUnity \<and> alphaValue \<noteq> 1
               then Inl (MatchFailure ''Unsupported integer value for alpha'')
               else Inr (ConstTensorSingleF32 alphaValue)
           | TorchConstantFloat v \<Rightarrow>
               Inl (MatchFailure
                 ''Currently only scalar constants are supported for alpha in TOSA operation'')
           | NotConstantScalar \<Rightarrow>
               Inl (MatchFailure
                 ''Currently only scalar constants are supported for alpha in TOSA operation'')))"

section \<open>Add and subtract with an alpha multiplier\<close>

text \<open>
  \<^verbatim>\<open>ConvertAtenAddSubOp<AtenOpT, TosaOpT>::matchAndRewrite\<close>. \<open>tosaOp\<close> is the template
  argument (\<open>AddOp\<close> or \<open>SubOp\<close>), \<open>outType\<close> the converted result type of the operator.
\<close>

definition addSubMatchAndRewrite ::
  "'d doubleOps \<Rightarrow> tosaBinaryOp \<Rightarrow> 'd operand \<Rightarrow> 'd operand \<Rightarrow> 'd torchScalar
     \<Rightarrow> rankedTensorType \<Rightarrow> failure + 'd val" where
  "addSubMatchAndRewrite fp tosaOp self other alpha outType =
     (case self of
        ScalarOperand s \<Rightarrow> Inl (MatchFailure ''Only Tensor types supported in TOSA'')
      | TensorOperand lhs \<Rightarrow>
     (let lhsType = getType lhs in
      if (case getElementType lhsType of IntegerType w \<Rightarrow> w > 64 | _ \<Rightarrow> False)
      then Inl (MatchFailure ''Integers with widths greater than 64 are not supported'')
      else
     (let outElemTy = getElementType outType in
      if \<not> isIntOrFloat outElemTy
      then Inl (MatchFailure
                  ''Only floating-point or integer datatype legalization supported'')
      else
     (let rhsAlphaMulElemType = (if isFloatType outElemTy then outElemTy else IntegerType 32) in
      case (case other of
              ScalarOperand otherScalar \<Rightarrow>
                (case torchScalarToTosaTensor fp otherScalar rhsAlphaMulElemType [] of
                   Inl e \<Rightarrow> Inl (MatchFailure
                     ''Currently only scalar constants are supported for conversion in TOSA operation'')
                 | Inr rhsAsTensor \<Rightarrow>
                     Inr (rhsAsTensor, RankedTensorType [] rhsAlphaMulElemType))
            | TensorOperand rhs \<Rightarrow>
                (let rhsType = getType rhs in
                 if getElementType rhsType \<noteq> rhsAlphaMulElemType
                 then (let castTy = RankedTensorType (getShape rhsType) rhsAlphaMulElemType
                       in Inr (CastOp castTy rhs, castTy))
                 else Inr (rhs, rhsType))) of
        Inl e \<Rightarrow> Inl e
      | Inr (rhsTensor, multType) \<Rightarrow>
     (case torchAlphaToTosaTensor fp alpha rhsAlphaMulElemType False of
        Inl e \<Rightarrow> Inl (MatchFailure
          ''Currently only scalar constants are supported for alpha in conversion to TOSA operation'')
      | Inr alphaTensor \<Rightarrow>
     (let multTensor = MulOp multType rhsTensor alphaTensor 0;
          lhs' = (if getElementType lhsType \<noteq> rhsAlphaMulElemType
                  then CastOp (RankedTensorType (getShape lhsType) rhsAlphaMulElemType) lhs
                  else lhs)
      in if isFloatType outElemTy \<or> outElemTy = IntegerType 32
         then Inr (BinaryOp tosaOp outType lhs' multTensor)
         else if outElemTy = IntegerType 64
         then (let tosaOpTOutputTensor =
                     BinaryOp tosaOp (RankedTensorType (getShape outType) rhsAlphaMulElemType)
                       lhs' multTensor
               in Inr (CastOp outType tosaOpTOutputTensor))
         else Inl (MatchFailure
                ''Only floating-point, i32, i64 datatype legalization supported'')))))))"

section \<open>Comparison and bitwise operators\<close>

text \<open>
  The source operators legalized by \<^verbatim>\<open>ConvertAtenCompareOp<AtenOpT, TosaOpT>\<close> and the
  target operator the dispatch table (\<^verbatim>\<open>INSERT_BINARY_COMPARE_PATTERN\<close>) pairs with each.
\<close>

datatype atenCompareOp =
    AtenGtTensorOp | AtenGtScalarOp | AtenLtTensorOp | AtenLtScalarOp
  | AtenEqTensorOp | AtenEqScalarOp | AtenNeTensorOp | AtenNeScalarOp
  | AtenBitwiseAndTensorOp | AtenBitwiseOrTensorOp | AtenBitwiseXorTensorOp

fun compareTosaOp :: "atenCompareOp \<Rightarrow> tosaBinaryOp" where
  "compareTosaOp AtenGtTensorOp = GreaterOp"
| "compareTosaOp AtenGtScalarOp = GreaterOp"
| "compareTosaOp AtenLtTensorOp = GreaterOp"
| "compareTosaOp AtenLtScalarOp = GreaterOp"
| "compareTosaOp AtenEqTensorOp = EqualOp"
| "compareTosaOp AtenEqScalarOp = EqualOp"
| "compareTosaOp AtenNeTensorOp = EqualOp"
| "compareTosaOp AtenNeScalarOp = EqualOp"
| "compareTosaOp AtenBitwiseAndTensorOp = BitwiseAndOp"
| "compareTosaOp AtenBitwiseOrTensorOp = BitwiseOrOp"
| "compareTosaOp AtenBitwiseXorTensorOp = BitwiseXorOp"

definition isBitwiseOp :: "atenCompareOp \<Rightarrow> bool" where
  "isBitwiseOp atenOp =
     (atenOp = AtenBitwiseAndTensorOp \<or> atenOp = AtenBitwiseOrTensorOp
      \<or> atenOp = AtenBitwiseXorTensorOp)"

definition swapLhsRhs :: "atenCompareOp \<Rightarrow> bool" where
  "swapLhsRhs atenOp = (atenOp = AtenLtTensorOp \<or> atenOp = AtenLtScalarOp)"

text \<open>
  \<^verbatim>\<open>ConvertAtenCompareOp<AtenOpT, TosaOpT>::matchAndRewrite\<close>; \<open>resultTy\<close> is the
  converted result type of the operator. \<^verbatim>\<open>tosa::promoteType\<close> is a helper outside this
  file and stays a node of the graph.
\<close>

definition compareMatchAndRewrite ::
  "'d doubleOps \<Rightarrow> atenCompareOp \<Rightarrow> tosaBinaryOp \<Rightarrow> 'd operand \<Rightarrow> 'd operand
     \<Rightarrow> rankedTensorType \<Rightarrow> failure + 'd val" where
  "compareMatchAndRewrite fp atenOp tosaOp self other resultTy =
     (case self of
        ScalarOperand s \<Rightarrow> Inl (MatchFailure ''Only Tensor types supported in TOSA'')
      | TensorOperand lhs \<Rightarrow>
     (let lhsElemTy = getElementType (getType lhs) in
      if \<not> isIntOrFloat lhsElemTy
      then Inl (MatchFailure
                  ''Only floating-point or integer datatype legalization supported'')
      else if isFloatType lhsElemTy \<and> isBitwiseOp atenOp
      then Inl (MatchFailure
                  ''For bitwise operators, only integer datatype legalization is supported'')
      else
      case (case other of
              ScalarOperand otherScalar \<Rightarrow>
                (case torchScalarToTosaTensor fp otherScalar lhsElemTy [] of
                   Inl e \<Rightarrow> Inl (MatchFailure
                     ''Currently only scalar constants are supported for conversion in TOSA operation'')
                 | Inr rhsAsTensor \<Rightarrow> Inr rhsAsTensor)
            | TensorOperand rhs \<Rightarrow> Inr rhs) of
        Inl e \<Rightarrow> Inl e
      | Inr rhsTensor \<Rightarrow>
     (let lhs' = (if isBitwiseOp atenOp then PromoteType resultTy lhs else lhs);
          rhsTensor' = (if isBitwiseOp atenOp then PromoteType resultTy rhsTensor
                        else rhsTensor);
          resultOp = BinaryOp tosaOp resultTy
                       (if swapLhsRhs atenOp then rhsTensor' else lhs')
                       (if swapLhsRhs atenOp then lhs' else rhsTensor')
      in if atenOp = AtenNeTensorOp \<or> atenOp = AtenNeScalarOp
         then Inr (LogicalNotOp resultTy resultOp)
         else Inr resultOp)))"

text \<open>
  Modelled from the spec: the meaning of the target's comparison primitives on one
  element of integer tensors, which the target's own specification fixes and this file
  relies on (greater-than, equal, logical-not). \<open>\<rho>\<close> gives the element of each operand.
\<close>

fun elemValue :: "(string \<Rightarrow> int) \<Rightarrow> 'd val \<Rightarrow> int option" where
  "elemValue \<rho> (Operand n ty) = Some (\<rho> n)"
| "elemValue \<rho> (ConstTensor (Int32Vec [d]) s) = Some d"
| "elemValue \<rho> (ConstTensor (Int64Vec [d]) s) = Some d"
| "elemValue \<rho> v = None"

fun elemTruth :: "(string \<Rightarrow> int) \<Rightarrow> 'd val \<Rightarrow> bool option" where
  "elemTruth \<rho> (BinaryOp GreaterOp ty a b) =
     (case (elemValue \<rho> a, elemValue \<rho> b) of
        (Some x, Some y) \<Rightarrow> Some (x > y) | _ \<Rightarrow> None)"
| "elemTruth \<rho> (BinaryOp EqualOp ty a b) =
     (case (elemValue \<rho> a, elemValue \<rho> b) of
        (Some x, Some y) \<Rightarrow> Some (x = y) | _ \<Rightarrow> None)"
| "elemTruth \<rho> (LogicalNotOp ty x) = map_option Not (elemTruth \<rho> x)"
| "elemTruth \<rho> v = None"

section \<open>Argmax\<close>

text \<open>
  \<^verbatim>\<open>ConvertAtenOp<AtenArgmaxOp>::matchAndRewrite\<close>. The lambda \<^verbatim>\<open>buildArgmax\<close> computes
  the shape of one \<^verbatim>\<open>tosa.argmax\<close>: the loop counts positions in \<open>i\<close> and drops the
  reduced one, or keeps it with size \<open>1\<close> under \<open>keepDim\<close>. The result is a 32-bit
  integer tensor.
\<close>

fun argmaxOutputShape :: "bool \<Rightarrow> int \<Rightarrow> int \<Rightarrow> int list \<Rightarrow> int list" where
  "argmaxOutputShape keepDim reduceDim i [] = []"
| "argmaxOutputShape keepDim reduceDim i (d # inputShape) =
     (if i \<noteq> reduceDim then d # argmaxOutputShape keepDim reduceDim (i + 1) inputShape
      else if keepDim then 1 # argmaxOutputShape keepDim reduceDim (i + 1) inputShape
      else argmaxOutputShape keepDim reduceDim (i + 1) inputShape)"

definition buildArgmax :: "shapeMarkers \<Rightarrow> bool \<Rightarrow> int \<Rightarrow> 'd val \<Rightarrow> 'd val" where
  "buildArgmax c keepDim reduceDim input =
     (let inputTy = getType input;
          inputShape = makeShapeTorchCompatible c (getShape inputTy);
          outputShapeArr = argmaxOutputShape keepDim reduceDim 0 inputShape;
          outputReduceTy = RankedTensorType (makeShapeLLVMCompatible c outputShapeArr)
                             (IntegerType 32)
      in ArgMaxOp outputReduceTy input reduceDim)"

text \<open>
  The lambda \<^verbatim>\<open>castToInt64\<close> replaces the operator by \<^verbatim>\<open>arith.extsi\<close> of the result, of
  the result's shape and the element type of the operator's declared result.
\<close>

definition castToInt64 :: "shapeMarkers \<Rightarrow> elemType \<Rightarrow> 'd val \<Rightarrow> failure + 'd val" where
  "castToInt64 c outputETy result =
     (let resTy = getType result;
          resShape = makeShapeTorchCompatible c (getShape resTy);
          outTy = RankedTensorType (makeShapeLLVMCompatible c resShape) outputETy
      in Inr (ExtSIOp outTy result))"

text \<open>
  The loop of the all-dims case, \<^verbatim>\<open>for (dim = 0; dim < rank; dim++) input = buildArgmax(0, input)\<close>,
  with the number of iterations left as its counter.
\<close>

fun argmaxAllDims :: "shapeMarkers \<Rightarrow> bool \<Rightarrow> nat \<Rightarrow> 'd val \<Rightarrow> 'd val" where
  "argmaxAllDims c keepDim 0 input = input"
| "argmaxAllDims c keepDim (Suc n) input =
     argmaxAllDims c keepDim n (buildArgmax c keepDim 0 input)"

definition argmaxMatchAndRewrite ::
  "shapeMarkers \<Rightarrow> 'd val \<Rightarrow> int torchConstant \<Rightarrow> bool torchConstant \<Rightarrow> rankedTensorType
     \<Rightarrow> failure + 'd val" where
  "argmaxMatchAndRewrite c self dimArg keepdimArg resultTy =
     (let selfTy = getType self;
          reduceDim = (case dimArg of Constant d \<Rightarrow> d | NotConstant \<Rightarrow> - 1)
      in case keepdimArg of
           NotConstant \<Rightarrow> Inl (MatchFailure ''non-const keepdim parameter unsupported'')
         | Constant keepDim \<Rightarrow>
             (let outputETy = getElementType resultTy
              in if reduceDim = - 1
                 then castToInt64 c outputETy
                        (argmaxAllDims c keepDim (length (getShape selfTy)) self)
                 else castToInt64 c outputETy (buildArgmax c keepDim reduceDim self)))"

text \<open>
  Reading an emitted graph back: the chain of \<^verbatim>\<open>tosa.argmax\<close> operators on top of a value,
  outermost first, each with its reduced dimension and the element type of its result,
  and the value under the chain.
\<close>

fun argMaxChain :: "'d val \<Rightarrow> (int \<times> elemType) list \<times> 'd val" where
  "argMaxChain (ArgMaxOp ty x d) =
     (case argMaxChain x of (ds, base) \<Rightarrow> ((d, getElementType ty) # ds, base))"
| "argMaxChain v = ([], v)"

section \<open>Reshape, view and flatten\<close>

text \<open>\<^verbatim>\<open>ConvertAtenOp<AtenReshapeOp>::matchAndRewrite\<close>; \<open>auto_sz\<close> counts the \<open>-1\<close> entries.\<close>

definition reshapeMatchAndRewrite ::
  "shapeMarkers \<Rightarrow> 'd val \<Rightarrow> int list torchConstant \<Rightarrow> failure + 'd val" where
  "reshapeMatchAndRewrite c self shapeArg =
     (let selfTy = getType self
      in case shapeArg of
           NotConstant \<Rightarrow> Inl (MatchFailure ''Only constant shape supported in TOSA Reshape'')
         | Constant newShape \<Rightarrow>
             (let auto_sz = sum_list (map (\<lambda>s. if s = - 1 then 1 else 0) newShape) :: int
              in if auto_sz > 1
                 then Inl (MatchFailure
                   ''At most one dimension may be specified as -1 to automatically calculate its size'')
                 else (let newType = RankedTensorType (makeShapeLLVMCompatible c newShape)
                                       (getElementType selfTy)
                       in Inr (ReshapeOp newType self newShape))))"

text \<open>\<^verbatim>\<open>ConvertAtenOp<AtenViewOp>::matchAndRewrite\<close>; \<open>resultTy\<close> is the converted result type.\<close>

definition viewMatchAndRewrite ::
  "'d val \<Rightarrow> int list torchConstant \<Rightarrow> rankedTensorType \<Rightarrow> failure + 'd val" where
  "viewMatchAndRewrite self sizeArg resultTy =
     (let selfType = getType self;
          selfElemTy = getElementType selfType
      in if \<not> isIntOrFloat selfElemTy
         then Inl (MatchFailure
                ''Only floating-point or integer datatype legalization supported'')
         else case sizeArg of
                NotConstant \<Rightarrow> Inl (MatchFailure ''size must consist of Scalar constants'')
              | Constant outShape \<Rightarrow> Inr (ReshapeOp resultTy self outShape))"

text \<open>
  Modelled from the spec: \<^verbatim>\<open>toPositiveDim\<close> and \<^verbatim>\<open>isValidDim\<close> are defined in the
  dialect's utilities, not in this file. The spec names them the canonical
  positive-dimension conversion and the dimension-validity check.
\<close>

definition toPositiveDim :: "int \<Rightarrow> int \<Rightarrow> int" where
  "toPositiveDim d inputRank = (if d \<ge> 0 then d else d + inputRank)"

definition isValidDim :: "int \<Rightarrow> int \<Rightarrow> bool" where
  "isValidDim d inputRank = (d \<ge> 0 \<and> d < inputRank)"

text \<open>A product of two 64-bit sizes keeps the low 64 bits.\<close>

definition mul64 :: "int \<Rightarrow> int \<Rightarrow> int" where
  "mul64 a b = signed_take_bit 63 (a * b)"

text \<open>
  \<^verbatim>\<open>ConvertAtenOp<AtenFlattenUsingIntsOp>::matchAndRewrite\<close>. The loop walks the shape
  with its index; inside the flattened range it multiplies the last pushed size
  (\<^verbatim>\<open>newShape.back() *= s\<close>, which needs a pushed size).
\<close>

fun flattenLoop :: "int \<Rightarrow> int \<Rightarrow> int \<Rightarrow> int list \<Rightarrow> int list \<Rightarrow> failure + int list" where
  "flattenLoop start_dim end_dim idx [] newShape = Inr newShape"
| "flattenLoop start_dim end_dim idx (s # rest) newShape =
     (if idx < start_dim \<or> idx > end_dim
      then flattenLoop start_dim end_dim (idx + 1) rest (newShape @ [s])
      else if idx = start_dim
      then flattenLoop start_dim end_dim (idx + 1) rest (newShape @ [s])
      else if newShape = [] then Inl (AssertionFailure ''back() of an empty vector'')
      else flattenLoop start_dim end_dim (idx + 1) rest
             (butlast newShape @ [mul64 (last newShape) s]))"

definition flattenMatchAndRewrite ::
  "shapeMarkers \<Rightarrow> 'd val \<Rightarrow> int torchConstant \<Rightarrow> int torchConstant \<Rightarrow> rankedTensorType
     \<Rightarrow> failure + 'd val" where
  "flattenMatchAndRewrite c self startDimArg endDimArg resultTy =
     (let selfType = getType self
      in if \<not> hasStaticShape c selfType
         then Inl (MatchFailure
                ''Only ranked tensor types with static shapes are currently supported'')
         else
     (let selfRank = getRank selfType
      in case startDimArg of
           NotConstant \<Rightarrow> Inl (MatchFailure ''start_dim must be a Scalar constant'')
         | Constant sd \<Rightarrow>
     (let start_dim = toPositiveDim sd selfRank
      in case endDimArg of
           NotConstant \<Rightarrow> Inl (MatchFailure ''end_dim must be a Scalar constant'')
         | Constant ed \<Rightarrow>
     (let end_dim = toPositiveDim ed selfRank
      in if selfRank > 0 \<and> \<not> isValidDim start_dim selfRank
         then Inl (MatchFailure ''start_dim is statically invalid'')
         else if selfRank > 0 \<and> \<not> isValidDim end_dim selfRank
         then Inl (MatchFailure ''end_dim is statically invalid'')
         else if end_dim < start_dim
         then Inl (MatchFailure ''end_dim must be larger than start_dim'')
         else
     (case flattenLoop start_dim end_dim 0
             (makeShapeTorchCompatible c (getShape selfType)) [] of
        Inl e \<Rightarrow> Inl e
      | Inr looped \<Rightarrow>
     (let newShape = (if length looped = 0 then [1] else looped);
          newType = RankedTensorType (makeShapeLLVMCompatible c newShape)
                      (getElementType selfType);
          reshapeOp = ReshapeOp newType self newShape
      in Inr (TensorCastOp resultTy reshapeOp)))))))"

section \<open>Broadcast-to\<close>

text \<open>
  \<^verbatim>\<open>ConvertAtenOp<AtenBroadcastToOp>::matchAndRewrite\<close>. \<open>users\<close> are the users of the
  operator's result and \<open>isViewLikeOp\<close> the predicate of the dialect's utilities, a
  parameter here. On success the pattern emits nothing: it replaces all uses of the
  result by the input value and erases the operator, so the model returns the input.
\<close>

definition broadcastToMatchAndRewrite ::
  "shapeMarkers \<Rightarrow> ('u \<Rightarrow> bool) \<Rightarrow> 'd val \<Rightarrow> int list torchConstant \<Rightarrow> 'u list
     \<Rightarrow> failure + 'd val" where
  "broadcastToMatchAndRewrite c isViewLikeOp self sizeArg users =
     (let selfType = getType self
      in if \<not> hasStaticShape c selfType
         then Inl (MatchFailure ''Only tensor types with static shape are supported'')
         else if \<not> isIntOrFloat (getElementType selfType)
         then Inl (MatchFailure
                ''Only floating-point or integer datatype legalization supported'')
         else case sizeArg of
                NotConstant \<Rightarrow> Inl (MatchFailure ''size must consist of Scalar constants'')
              | Constant outShape \<Rightarrow>
                  (let inputShape = makeShapeTorchCompatible c (getShape selfType)
                   in if length inputShape = length outShape \<or> length inputShape = 0
                      then (if inputShape \<noteq> outShape \<and> list_ex isViewLikeOp users
                            then Inl (MatchFailure
                                   ''unimplemented: broadcast not supported for this case'')
                            else Inr self)
                      else Inl (MatchFailure
                        ''unimplemented: broadcasts other than same rank or zero ranked tensor.'')))"

section \<open>Embedding\<close>

text \<open>\<^verbatim>\<open>ConvertAtenOp<AtenEmbeddingOp>::matchAndRewrite\<close>; \<open>outType\<close> is the converted result type.\<close>

definition embeddingMatchAndRewrite ::
  "shapeMarkers \<Rightarrow> 'd val \<Rightarrow> 'd val \<Rightarrow> int torchConstant \<Rightarrow> bool torchConstant
     \<Rightarrow> bool torchConstant \<Rightarrow> rankedTensorType \<Rightarrow> failure + 'd val" where
  "embeddingMatchAndRewrite c weight indices paddingIdxArg scaleGradByFreqArg sparseArg outType =
     (let indicesType = getType indices
      in if \<not> isIntegerType (getElementType indicesType)
         then Inl (MatchFailure ''Indices must be of integer tensor type'')
         else if getRank indicesType \<noteq> 2
         then Inl (MatchFailure ''indices must be of rank 2'')
         else
     (let weightType = getType weight
      in if getRank weightType \<noteq> 2
         then Inl (EmitError ''weight must be of rank 2'')
         else case paddingIdxArg of
           NotConstant \<Rightarrow> Inl (MatchFailure
             ''only supports constant int padding_idx for embedding op'')
         | Constant paddingIdx \<Rightarrow>
     (case scaleGradByFreqArg of
           NotConstant \<Rightarrow> Inl (MatchFailure
             ''only supports constant bool scale_grad_by_freq for embedding op'')
         | Constant scaleGradByFreq \<Rightarrow>
         if scaleGradByFreq
         then Inl (MatchFailure
                ''only supports scale_grad_by_freq equals to False for embedding op'')
         else
     (case sparseArg of
           NotConstant \<Rightarrow> Inl (MatchFailure
             ''only supports constant bool sparse for embedding op'')
         | Constant isSparse \<Rightarrow>
         if isSparse
         then Inl (MatchFailure ''only support sparse equals to False for embedding op'')
         else
     (let indicesShape = makeShapeTorchCompatible c (getShape indicesType);
          weightShape = makeShapeTorchCompatible c (getShape weightType);
          newWeightShape = 1 # weightShape;
          reshapedWeight = ReshapeOp (RankedTensorType (makeShapeLLVMCompatible c newWeightShape)
                                        (getElementType weightType)) weight newWeightShape;
          numIndices = (if hasStaticShape c indicesType then foldl mul64 1 indicesShape
                        else kUnknownSize c);
          newIndicesShape = [1, numIndices];
          reshapedIndices = ReshapeOp (RankedTensorType (makeShapeLLVMCompatible c newIndicesShape)
                                         (getElementType indicesType)) indices newIndicesShape;
          castIndices = CastOp (RankedTensorType (makeShapeLLVMCompatible c newIndicesShape)
                                  (IntegerType 32)) reshapedIndices;
          intermediateOutShape = [1, numIndices, weightShape ! 1];
          gatherOp = GatherOp (RankedTensorType (makeShapeLLVMCompatible c intermediateOutShape)
                                 (getElementType weightType)) reshapedWeight castIndices
      in Inr (ReshapeOp outType gatherOp
                (makeShapeTorchCompatible c (getShape outType))))))))"

section \<open>Matrix multiplication\<close>

text \<open>
  \<^verbatim>\<open>ConvertAtenMatmulBaseOp::performMatmul\<close>. The lambdas and the steps of the function
  are separate definitions here, each taking what the lambda captures. Positions of
  dimensions are natural numbers; \<open>n\<close> is \<^verbatim>\<open>maxInputRank\<close> where it is used as a position
  bound, and \<open>L\<close> and \<open>R\<close> are the rank-broadcast shapes of the two operands.
\<close>

definition getRankBroadcastedShape :: "shapeMarkers \<Rightarrow> int \<Rightarrow> 'd val \<Rightarrow> bool \<Rightarrow> int list" where
  "getRankBroadcastedShape c maxInputRank tensor isRHS =
     (let tensorTy = getType tensor;
          tensorShape = makeShapeTorchCompatible c (getShape tensorTy);
          tensorRank = getRank tensorTy;
          bcastDims = maxInputRank - tensorRank
      in if isRHS \<and> tensorRank = 1 \<and> bcastDims \<noteq> 0
         then replicate (nat (bcastDims - 1)) 1 @ [tensorShape ! 0] @ [1]
         else (if bcastDims > 0 then replicate (nat bcastDims) 1 else []) @ tensorShape)"

definition reshapeUpTo3DTensor :: "shapeMarkers \<Rightarrow> 'd val \<Rightarrow> failure + 'd val" where
  "reshapeUpTo3DTensor c tensor =
     (let tensorTy = getType tensor;
          rank = getRank tensorTy
      in if \<not> rank \<le> 3
         then Inl (AssertionFailure ''reshapeUpTo3D tensor must receive rank <= 3'')
         else if rank = 3 then Inr tensor
         else
     (let shape = makeShapeTorchCompatible c (getShape tensorTy)
      in if rank \<noteq> 2 \<and> length shape = 0
         then Inl (AssertionFailure ''idx < size()'')
         else
     (let newShape = (if rank = 2 then [1, shape ! 0, shape ! 1] else [1, 1, shape ! 0]);
          newType = RankedTensorType (makeShapeLLVMCompatible c newShape)
                      (getElementType tensorTy)
      in Inr (ReshapeOp newType tensor newShape))))"

definition needsBatchDimBroadcast :: "int \<Rightarrow> int list \<Rightarrow> int list \<Rightarrow> bool" where
  "needsBatchDimBroadcast maxInputRank L R =
     (if maxInputRank < 3 then False
      else if maxInputRank = 3 \<and> L ! 0 = R ! 0 then False
      else True)"

fun isTransposeRequiredFrom :: "int \<Rightarrow> int list \<Rightarrow> bool" where
  "isTransposeRequiredFrom lastDim [] = False"
| "isTransposeRequiredFrom lastDim (d # transposedDims) =
     (if lastDim > d then True else isTransposeRequiredFrom d transposedDims)"

definition isTransposeRequired :: "int list \<Rightarrow> bool" where
  "isTransposeRequired transposedDims = isTransposeRequiredFrom (- 1) transposedDims"

text \<open>
  The three lists of \<^verbatim>\<open>TensorShape_t {dim, shape}\<close>: the batch positions whose sizes agree
  or are dynamic on the left, and per operand the batch positions that broadcast,
  followed by the operand's own matrix dimension.
\<close>

type_synonym tensorShape_t = "nat \<times> int"

definition commonElemsOf :: "shapeMarkers \<Rightarrow> nat \<Rightarrow> int list \<Rightarrow> int list \<Rightarrow> tensorShape_t list" where
  "commonElemsOf c n L R =
     [(d, L ! d). d \<leftarrow> [0..<n - 2], isDynamic c (L ! d) \<or> L ! d = R ! d]"

definition lhsSqueezedElemsOf :: "shapeMarkers \<Rightarrow> nat \<Rightarrow> int list \<Rightarrow> int list \<Rightarrow> tensorShape_t list" where
  "lhsSqueezedElemsOf c n L R =
     [(d, L ! d). d \<leftarrow> [0..<n - 2], \<not> isDynamic c (L ! d) \<and> L ! d \<noteq> R ! d]
     @ [(n - 2, L ! (n - 2))]"

definition rhsSqueezedElemsOf :: "shapeMarkers \<Rightarrow> nat \<Rightarrow> int list \<Rightarrow> int list \<Rightarrow> tensorShape_t list" where
  "rhsSqueezedElemsOf c n L R =
     [(d, R ! d). d \<leftarrow> [0..<n - 2], \<not> isDynamic c (R ! d) \<and> R ! d \<noteq> L ! d]
     @ [(n - 1, R ! (n - 1))]"

text \<open>
  The transpose of an operand, when its order of dimensions requires one; the
  permutation is a constant tensor of 32-bit integers.
\<close>

definition transposeIfRequired ::
  "shapeMarkers \<Rightarrow> nat list \<Rightarrow> int list \<Rightarrow> elemType \<Rightarrow> 'd val \<Rightarrow> 'd val" where
  "transposeIfRequired c transposedDims transposedShape elemTy input =
     (if isTransposeRequired (map int transposedDims)
      then TransposeOp (RankedTensorType (makeShapeLLVMCompatible c transposedShape) elemTy)
             input
             (ConstTensor (Int32Vec (map int transposedDims)) [int (length transposedDims)])
      else input)"

text \<open>
  The broadcast branch: the two inputs of \<^verbatim>\<open>tosa.matmul\<close> when batch dimensions
  broadcast. The accumulated sizes are products of 64-bit integers.
\<close>

definition batchBroadcastMatmulLhs ::
  "shapeMarkers \<Rightarrow> nat \<Rightarrow> int list \<Rightarrow> int list \<Rightarrow> elemType \<Rightarrow> elemType \<Rightarrow> 'd val \<Rightarrow> 'd val" where
  "batchBroadcastMatmulLhs c n L R lhsElemTy rhsElemTy rankBroadcastedLhs =
     (let commonElems = commonElemsOf c n L R;
          hasDynamicDims = list_ex (\<lambda>d. isDynamic c (L ! d)) [0..<n - 2];
          commonValue0 = foldl mul64 1 (map snd commonElems);
          commonValue1 = (if commonValue0 < 0 then kUnknownSize c else commonValue0);
          commonValue = (if hasDynamicDims then kUnknownSize c else commonValue1);
          lhsSqueezedElems = lhsSqueezedElemsOf c n L R;
          lhsSqueezedValue0 = foldl mul64 1 (map snd lhsSqueezedElems);
          lhsSqueezedValue = (if lhsSqueezedValue0 < 0 then kUnknownSize c
                              else lhsSqueezedValue0);
          transposedLhsShape = map snd commonElems @ map snd lhsSqueezedElems @ [L ! (n - 1)];
          transposedLhsDims = map fst commonElems @ map fst lhsSqueezedElems @ [n - 1];
          lhsReshapeInput = transposeIfRequired c transposedLhsDims transposedLhsShape
                              rhsElemTy rankBroadcastedLhs;
          newLhsShape = [commonValue,
                         if hasDynamicDims then kUnknownSize c else lhsSqueezedValue,
                         L ! (n - 1)];
          newLhsType = RankedTensorType (makeShapeLLVMCompatible c newLhsShape) lhsElemTy
      in ReshapeOp newLhsType lhsReshapeInput newLhsShape)"

definition batchBroadcastMatmulRhs ::
  "shapeMarkers \<Rightarrow> nat \<Rightarrow> int list \<Rightarrow> int list \<Rightarrow> elemType \<Rightarrow> 'd val \<Rightarrow> 'd val" where
  "batchBroadcastMatmulRhs c n L R rhsElemTy rankBroadcastedRhs =
     (let commonElems = commonElemsOf c n L R;
          lhsHasDynamicDims = list_ex (\<lambda>d. isDynamic c (L ! d)) [0..<n - 2];
          commonValue0 = foldl mul64 1 (map snd commonElems);
          commonValue1 = (if commonValue0 < 0 then kUnknownSize c else commonValue0);
          commonValue = (if lhsHasDynamicDims then kUnknownSize c else commonValue1);
          hasDynamicDims = list_ex (\<lambda>d. isDynamic c (R ! d)) [0..<n - 2];
          rhsSqueezedElems = rhsSqueezedElemsOf c n L R;
          rhsSqueezedValue0 = foldl mul64 1 (map snd rhsSqueezedElems);
          transposedRhsShape = map snd commonElems @ [R ! (n - 2)] @ map snd rhsSqueezedElems;
          transposedRhsDims = map fst commonElems @ [n - 2] @ map fst rhsSqueezedElems;
          rhsSqueezedValue = (if hasDynamicDims then kUnknownSize c else rhsSqueezedValue0);
          newRhsShape = [if commonValue < 0 then kUnknownSize c else commonValue,
                         R ! (n - 2), rhsSqueezedValue];
          newRhsType = RankedTensorType (makeShapeLLVMCompatible c newRhsShape) rhsElemTy;
          transposedRhsValue = transposeIfRequired c transposedRhsDims transposedRhsShape
                                 rhsElemTy rankBroadcastedRhs
      in ReshapeOp newRhsType transposedRhsValue newRhsShape)"

text \<open>
  The lambda \<^verbatim>\<open>computeOpShape\<close>: the shape the product is reshaped to, the permutation
  that orders its dimensions, and the shape after that permutation.
\<close>

definition computeOpShape ::
  "shapeMarkers \<Rightarrow> int \<Rightarrow> int \<Rightarrow> int \<Rightarrow> int list \<Rightarrow> int list \<Rightarrow> int list \<Rightarrow> int list
     \<Rightarrow> int list \<times> nat list \<times> int list" where
  "computeOpShape c maxInputRank lhsRank rhsRank lhsShape rhsShape L R =
     (if maxInputRank = 1 then ([], [], [])
      else if maxInputRank = 2
      then ((if lhsRank = 2 then [lhsShape ! 0] else [])
            @ (if rhsRank = 2 then [rhsShape ! 1] else []), [], [])
      else
     (let n = nat maxInputRank;
          commonElems = commonElemsOf c n L R;
          lhsSqueezedElems = lhsSqueezedElemsOf c n L R;
          rhsSqueezedElems = rhsSqueezedElemsOf c n L R;
          lhsKept = filter (\<lambda>e. snd e \<noteq> 1) (butlast lhsSqueezedElems);
          rhsKept = filter (\<lambda>e. snd e \<noteq> 1) (butlast rhsSqueezedElems);
          reshapedOpShape =
            map snd commonElems @ map snd lhsKept
            @ (if lhsRank > 1 then [L ! (n - 2)] else [])
            @ map snd rhsKept
            @ (if rhsRank > 1 then [R ! (n - 1)] else []);
          transposedOpDims =
            map fst commonElems @ map fst lhsKept
            @ (if lhsRank > 1 then [n - 2] else [])
            @ map fst rhsKept
            @ (if rhsRank > 1 then [n - 1] else []);
          lhsBroadcastedTyShape = makeShapeLLVMCompatible c L;
          transposedOpShapes =
            map (\<lambda>i. if isDynamic c (lhsBroadcastedTyShape ! i) then kUnknownSize c
                      else if L ! i = R ! i then L ! i
                      else if L ! i = 1 then R ! i else L ! i) [0..<n - 2]
            @ (if lhsRank > 1 then [L ! (n - 2)] else [])
            @ (if rhsRank > 1 then [R ! (n - 1)] else [])
      in (reshapedOpShape, transposedOpDims, transposedOpShapes)))"

text \<open>
  The inputs of \<^verbatim>\<open>tosa.matmul\<close>: the first half of \<^verbatim>\<open>performMatmul\<close>, up to the assertion
  on the batch sizes.
\<close>

definition maxInputRankOf :: "int \<Rightarrow> int \<Rightarrow> int" where
  "maxInputRankOf lhsRank rhsRank =
     (let maxInputRank = (if lhsRank > rhsRank then lhsRank else rhsRank)
      in if maxInputRank = 1 then maxInputRank + 1 else maxInputRank)"

definition matmulInputs :: "shapeMarkers \<Rightarrow> 'd val \<Rightarrow> 'd val \<Rightarrow> failure + 'd val \<times> 'd val" where
  "matmulInputs c lhs rhs =
     (let lhsTy = getType lhs; rhsTy = getType rhs;
          lhsRank = getRank lhsTy; rhsRank = getRank rhsTy;
          lhsElemTy = getElementType lhsTy; rhsElemTy = getElementType rhsTy;
          maxInputRank = maxInputRankOf lhsRank rhsRank;
          lhsBroadcastedShape = getRankBroadcastedShape c maxInputRank lhs False;
          lhsBroadcastedTy = RankedTensorType (makeShapeLLVMCompatible c lhsBroadcastedShape)
                               lhsElemTy;
          rhsBroadcastedShape = getRankBroadcastedShape c maxInputRank rhs True;
          rhsBroadcastedTy = RankedTensorType (makeShapeLLVMCompatible c rhsBroadcastedShape)
                               rhsElemTy;
          rankBroadcastedLhs = (if lhsRank = maxInputRank then lhs
                                else ReshapeOp lhsBroadcastedTy lhs lhsBroadcastedShape);
          rankBroadcastedRhs = (if rhsRank = maxInputRank then rhs
                                else ReshapeOp rhsBroadcastedTy rhs rhsBroadcastedShape);
          performBatchDimBroadcast =
            needsBatchDimBroadcast maxInputRank lhsBroadcastedShape rhsBroadcastedShape
      in if \<not> performBatchDimBroadcast
         then (case reshapeUpTo3DTensor c rankBroadcastedLhs of
                 Inl e \<Rightarrow> Inl e
               | Inr matmulLhs \<Rightarrow>
                   (case reshapeUpTo3DTensor c rankBroadcastedRhs of
                      Inl e \<Rightarrow> Inl e
                    | Inr matmulRhs \<Rightarrow> Inr (matmulLhs, matmulRhs)))
         else Inr (batchBroadcastMatmulLhs c (nat maxInputRank) lhsBroadcastedShape
                     rhsBroadcastedShape lhsElemTy rhsElemTy rankBroadcastedLhs,
                   batchBroadcastMatmulRhs c (nat maxInputRank) lhsBroadcastedShape
                     rhsBroadcastedShape rhsElemTy rankBroadcastedRhs))"

definition batchSizeAssertion :: failure where
  "batchSizeAssertion = AssertionFailure ''tosa.matmul needs same batchsize on LHS and RHS''"

definition performMatmul :: "shapeMarkers \<Rightarrow> 'd val \<Rightarrow> 'd val \<Rightarrow> failure + 'd val" where
  "performMatmul c lhs rhs =
     (let lhsTy = getType lhs; rhsTy = getType rhs;
          lhsRank = getRank lhsTy; rhsRank = getRank rhsTy;
          lhsShape = makeShapeTorchCompatible c (getShape lhsTy);
          rhsShape = makeShapeTorchCompatible c (getShape rhsTy);
          lhsElemTy = getElementType lhsTy; rhsElemTy = getElementType rhsTy
      in if lhsElemTy \<noteq> rhsElemTy
         then Inl (MatchFailure ''Matmul: input datatypes mismatched'')
         else
     (let maxInputRank = maxInputRankOf lhsRank rhsRank;
          lhsBroadcastedShape = getRankBroadcastedShape c maxInputRank lhs False;
          rhsBroadcastedShape = getRankBroadcastedShape c maxInputRank rhs True;
          performBatchDimBroadcast =
            needsBatchDimBroadcast maxInputRank lhsBroadcastedShape rhsBroadcastedShape
      in case matmulInputs c lhs rhs of
           Inl e \<Rightarrow> Inl e
         | Inr (matmulLhs, matmulRhs) \<Rightarrow>
     (let matmulLhsShape = makeShapeTorchCompatible c (getShape (getType matmulLhs));
          matmulRhsShape = makeShapeTorchCompatible c (getShape (getType matmulRhs))
      in if \<not> matmulLhsShape ! 0 = matmulRhsShape ! 0 then Inl batchSizeAssertion
         else
     (let matmulOutputShape = [matmulLhsShape ! 0, matmulLhsShape ! 1, matmulRhsShape ! 2];
          outputElemTy = (if isFloatType lhsElemTy then lhsElemTy else IntegerType 32);
          mmOutputTy = RankedTensorType (makeShapeLLVMCompatible c matmulOutputShape)
                         outputElemTy;
          mmOpResult = MatMulOp mmOutputTy matmulLhs matmulRhs;
          performOpReshape = (\<not> (maxInputRank = 3 \<and> \<not> performBatchDimBroadcast))
      in if performOpReshape
         then (case computeOpShape c maxInputRank lhsRank rhsRank lhsShape rhsShape
                      lhsBroadcastedShape rhsBroadcastedShape of
                 (reshapedOpShape, transposedOpDims, transposedOpShape) \<Rightarrow>
                   (let reshapedOpType =
                          RankedTensorType (makeShapeLLVMCompatible c reshapedOpShape)
                            outputElemTy;
                        reshapedOp = ReshapeOp reshapedOpType mmOpResult reshapedOpShape
                    in Inr (transposeIfRequired c transposedOpDims transposedOpShape
                              outputElemTy reshapedOp)))
         else Inr mmOpResult))))"

text \<open>
  Reading an emitted graph back: the operands of the \<^verbatim>\<open>tosa.matmul\<close> under the reshape and
  transpose that shape the output.
\<close>

fun emittedMatMul :: "'d val \<Rightarrow> ('d val \<times> 'd val) option" where
  "emittedMatMul (MatMulOp ty a b) = Some (a, b)"
| "emittedMatMul (ReshapeOp ty x s) = emittedMatMul x"
| "emittedMatMul (TransposeOp ty x p) = emittedMatMul x"
| "emittedMatMul v = None"

text \<open>
  \<^verbatim>\<open>ConvertAtenMatmulBaseOp::matchAndRewrite\<close> for \<^verbatim>\<open>ConvertAtenMatMulOp\<close>, whose
  \<^verbatim>\<open>readMatMulInputs\<close> takes the two operands as they are: the output of
  \<^verbatim>\<open>performMatmul\<close>, cast to the converted result type of the operator.
\<close>

definition matmulMatchAndRewrite ::
  "shapeMarkers \<Rightarrow> 'd val \<Rightarrow> 'd val \<Rightarrow> rankedTensorType \<Rightarrow> failure + 'd val" where
  "matmulMatchAndRewrite c self other resultTy =
     (case performMatmul c self other of
        Inl e \<Rightarrow> Inl (MatchFailure ''Failed to perform matmul operation'')
      | Inr output \<Rightarrow> Inr (TensorCastOp resultTy output))"

section \<open>The broadcasting matmul shape of the specification\<close>

text \<open>
  The standard broadcasting of the leading (batch) dimensions, in the spec's words: the
  shorter list is padded with \<open>1\<close> on the left; two sizes are compatible when they are
  equal or one of them is \<open>1\<close>, and they broadcast to the one that is not \<open>1\<close>. This is the
  specification side of the matmul shape law, not a translation of the source.
\<close>

definition padLeading :: "nat \<Rightarrow> int list \<Rightarrow> int list" where
  "padLeading n xs = replicate (n - length xs) 1 @ xs"

definition broadcastCompatible :: "int list \<Rightarrow> int list \<Rightarrow> bool" where
  "broadcastCompatible xs ys =
     (let n = max (length xs) (length ys)
      in list_all2 (\<lambda>x y. x = y \<or> x = 1 \<or> y = 1) (padLeading n xs) (padLeading n ys))"

definition broadcastShape :: "int list \<Rightarrow> int list \<Rightarrow> int list" where
  "broadcastShape xs ys =
     (let n = max (length xs) (length ys)
      in map2 (\<lambda>x y. if x = 1 then y else x) (padLeading n xs) (padLeading n ys))"

section \<open>Properties of the shape utilities\<close>

lemma markersNegative_torchMlirMarkers: "markersNegative torchMlirMarkers"
  by (simp add: markersNegative_def torchMlirMarkers_def)

lemma makeShape_roundtrip:
  assumes "markersNegative c" and "\<forall>d\<in>set shape. 0 \<le> d \<or> d = kDynamic c"
  shows "makeShapeLLVMCompatible c (makeShapeTorchCompatible c shape) = shape"
proof -
  have "(if (if d = kDynamic c then kUnknownSize c else d) = kUnknownSize c
         then kDynamic c else (if d = kDynamic c then kUnknownSize c else d)) = d"
    if "d \<in> set shape" for d
    using assms that by (auto simp: markersNegative_def)
  then show ?thesis
    by (simp add: makeShapeLLVMCompatible_def makeShapeTorchCompatible_def map_idI)
qed

section \<open>Squeeze removes only dimensions statically known to be 1\<close>

lemma squeezeOneDimLoop_eq:
  "squeezeOneDimLoop sq n xs =
     (if int n \<le> sq \<and> sq < int n + int (length xs) \<and> xs ! nat (sq - int n) = 1
      then take (nat (sq - int n)) xs @ drop (Suc (nat (sq - int n))) xs
      else xs)"
proof (induction xs arbitrary: n)
  case Nil
  then show ?case by simp
next
  case (Cons x xs)
  show ?case
  proof (cases "sq = int n")
    case True
    then show ?thesis using Cons.IH [of "Suc n"] by simp
  next
    case False
    have "int n \<le> sq \<Longrightarrow> nat (sq - int n) = Suc (nat (sq - int (Suc n)))"
      using False by simp
    then show ?thesis using Cons.IH [of "Suc n"] False
      by (auto simp: nth_Cons')
  qed
qed

lemma squeezeAllDimsLoop_eq: "squeezeAllDimsLoop xs = filter (\<lambda>d. d \<noteq> 1) xs"
  by (induction xs) simp_all

lemma filter_squeezeOneDimLoop:
  "\<not> P 1 \<Longrightarrow> filter P (squeezeOneDimLoop sq n xs) = filter P xs"
  by (induction xs arbitrary: n) auto

lemma filter_squeezeAllDimsLoop:
  "\<not> P 1 \<Longrightarrow> filter P (squeezeAllDimsLoop xs) = filter P xs"
  by (induction xs) auto

lemma dynamic_dims_kept:
  assumes neg: "markersNegative c" and wf: "\<forall>d\<in>set shape. 0 \<le> d \<or> d = kDynamic c"
    and keep: "\<And>P. \<not> P 1 \<Longrightarrow> filter P out = filter P (makeShapeTorchCompatible c shape)"
  shows "filter (isDynamic c) (makeShapeLLVMCompatible c out) = filter (isDynamic c) shape"
proof -
  let ?f = "\<lambda>d. if d = kUnknownSize c then kDynamic c else d"
  have one: "\<not> (isDynamic c \<circ> ?f) 1"
    using neg by (auto simp: markersNegative_def isDynamic_def)
  have "filter (isDynamic c) (makeShapeLLVMCompatible c out)
          = map ?f (filter (isDynamic c \<circ> ?f) out)"
    by (simp add: makeShapeLLVMCompatible_def filter_map)
  also have "\<dots> = map ?f (filter (isDynamic c \<circ> ?f) (makeShapeTorchCompatible c shape))"
    using keep [of "isDynamic c \<circ> ?f"] one by simp
  also have "\<dots> = filter (isDynamic c)
                     (makeShapeLLVMCompatible c (makeShapeTorchCompatible c shape))"
    by (simp add: makeShapeLLVMCompatible_def filter_map)
  finally show ?thesis
    using makeShape_roundtrip [OF neg wf] by simp
qed

text \<open>
  Claim C4. For a ranked input whose sizes are static or dynamic, the one-dim squeeze
  computes the input shape without position \<open>k\<close> (the requested dim, counted from the end
  when negative) if that position exists and is statically \<open>1\<close>, and the unchanged shape
  otherwise; the all-dims squeeze computes the input shape without its entries that are
  statically \<open>1\<close>. In both, the dynamic dimensions of the emitted type are those of the
  input, and a request that names a dynamic dimension removes nothing.
\<close>

theorem squeeze_removes_exactly_static_unit_dims:
  assumes "markersNegative c" and "\<forall>d\<in>set shape. 0 \<le> d \<or> d = kDynamic c"
  shows "(let selfTy = RankedTensorType shape ety;
              s = makeShapeTorchCompatible c shape;
              k = (if dim < 0 then dim + int (length shape) else dim);
              oneDim = (if 0 \<le> k \<and> k < int (length shape) \<and> shape ! nat k = 1
                        then take (nat k) s @ drop (Suc (nat k)) s else s);
              allDims = filter (\<lambda>d. d \<noteq> 1) s
          in generateSqueezedShapeOneDim c (Constant dim) selfTy = Inr oneDim
           \<and> generateSqueezedShapeAllDims c selfTy = Inr allDims
           \<and> filter (isDynamic c) (makeShapeLLVMCompatible c oneDim) = filter (isDynamic c) shape
           \<and> filter (isDynamic c) (makeShapeLLVMCompatible c allDims) = filter (isDynamic c) shape
           \<and> (0 \<le> k \<and> k < int (length shape) \<and> isDynamic c (shape ! nat k)
                \<longrightarrow> generateSqueezedShapeOneDim c (Constant dim) selfTy = Inr s))"
proof -
  define s where "s = makeShapeTorchCompatible c shape"
  define k where "k = (if dim < 0 then dim + int (length shape) else dim)"
  define oneDim where "oneDim = (if 0 \<le> k \<and> k < int (length shape) \<and> shape ! nat k = 1
                        then take (nat k) s @ drop (Suc (nat k)) s else s)"
  define allDims where "allDims = filter (\<lambda>d. d \<noteq> 1) s"
  have len: "length s = length shape"
    by (simp add: s_def makeShapeTorchCompatible_def)
  have nth: "s ! nat k = 1 \<longleftrightarrow> shape ! nat k = 1" if "0 \<le> k" "k < int (length shape)"
  proof -
    have "nat k < length shape" using that by simp
    then show ?thesis
      using assms(1) by (auto simp: s_def makeShapeTorchCompatible_def markersNegative_def)
  qed
  have loop1: "squeezeOneDimLoop k 0 s = oneDim"
    using nth by (auto simp: squeezeOneDimLoop_eq oneDim_def len)
  have loopA: "squeezeAllDimsLoop s = allDims"
    by (simp add: squeezeAllDimsLoop_eq allDims_def)
  have "generateSqueezedShapeOneDim c (Constant dim) (RankedTensorType shape ety)
          = Inr (squeezeOneDimLoop k 0 s)"
    by (simp add: generateSqueezedShapeOneDim_def getRank_def Let_def s_def k_def)
  then have g1: "generateSqueezedShapeOneDim c (Constant dim) (RankedTensorType shape ety)
                   = Inr oneDim"
    using loop1 by simp
  have gA: "generateSqueezedShapeAllDims c (RankedTensorType shape ety) = Inr allDims"
    using loopA by (simp add: generateSqueezedShapeAllDims_def s_def)
  have d1: "filter (isDynamic c) (makeShapeLLVMCompatible c oneDim) = filter (isDynamic c) shape"
  proof (rule dynamic_dims_kept [OF assms])
    fix P :: "int \<Rightarrow> bool"
    assume "\<not> P 1"
    then show "filter P oneDim = filter P (makeShapeTorchCompatible c shape)"
      using filter_squeezeOneDimLoop [of P k 0 s] unfolding loop1 unfolding s_def by simp
  qed
  have dA: "filter (isDynamic c) (makeShapeLLVMCompatible c allDims) = filter (isDynamic c) shape"
  proof (rule dynamic_dims_kept [OF assms])
    fix P :: "int \<Rightarrow> bool"
    assume "\<not> P 1"
    then show "filter P allDims = filter P (makeShapeTorchCompatible c shape)"
      using filter_squeezeAllDimsLoop [of P s] unfolding loopA unfolding s_def by simp
  qed
  have "oneDim = s" if "0 \<le> k" "k < int (length shape)" "isDynamic c (shape ! nat k)"
    using that assms(1) by (auto simp: oneDim_def isDynamic_def markersNegative_def)
  then have dyn: "0 \<le> k \<and> k < int (length shape) \<and> isDynamic c (shape ! nat k)
      \<longrightarrow> generateSqueezedShapeOneDim c (Constant dim) (RankedTensorType shape ety) = Inr s"
    using g1 by simp
  show ?thesis
    unfolding Let_def
    using g1 gA d1 dA dyn
    unfolding oneDim_def allDims_def unfolding k_def s_def
    by blast
qed

theorem squeeze_removes_exactly_static_unit_dims_witness:
  "generateSqueezedShapeOneDim torchMlirMarkers (Constant 1)
       (RankedTensorType [- 9223372036854775808, 1, 3, 1] (FloatType 32)) = Inr [- 1, 3, 1]
   \<and> generateSqueezedShapeOneDim torchMlirMarkers (Constant (- 4))
       (RankedTensorType [- 9223372036854775808, 1, 3, 1] (FloatType 32)) = Inr [- 1, 1, 3, 1]
   \<and> generateSqueezedShapeAllDims torchMlirMarkers
       (RankedTensorType [- 9223372036854775808, 1, 3, 1] (FloatType 32)) = Inr [- 1, 3]"
proof -
  have wf: "\<forall>d\<in>set [- 9223372036854775808, 1, 3, 1 :: int].
              0 \<le> d \<or> d = kDynamic torchMlirMarkers"
    by (simp add: torchMlirMarkers_def)
  show ?thesis
    using squeeze_removes_exactly_static_unit_dims
            [OF markersNegative_torchMlirMarkers wf, where dim = 1 and ety = "FloatType 32"]
          squeeze_removes_exactly_static_unit_dims
            [OF markersNegative_torchMlirMarkers wf, where dim = "- 4" and ety = "FloatType 32"]
    by (simp add: Let_def makeShapeTorchCompatible_def torchMlirMarkers_def)
qed

section \<open>Lifting a scalar to an integer tensor checks its range\<close>

lemma signed_take_bit_31_id:
  "- 2147483648 \<le> i \<Longrightarrow> i \<le> 2147483647 \<Longrightarrow> signed_take_bit 31 (i::int) = i"
  using signed_take_bit_int_eq_self [of 31 i] by simp

text \<open>
  Claim C3. Lifting a constant scalar to a tensor of integer element type of width \<open>w\<close>
  succeeds only for \<open>w = 32\<close> and \<open>w = 64\<close>. An integer constant is lifted exactly when it
  lies in the signed range of the width, and the tensor then holds the constant itself.
  A float constant \<open>v\<close> is lifted exactly when converting \<open>v\<close> to the integer type and back
  compares equal to \<open>v\<close>, and the tensor then holds that integer. Every other case is the
  range violation, or the unsupported-type failure for another width. The statement
  holds for any arithmetic of \<^verbatim>\<open>double\<close> (\<open>fp\<close>).
\<close>

theorem liftScalar_integer_destination:
  "torchScalarToTosaTensor fp (TorchConstantInt i) (IntegerType w) dshape =
     (if w = 32 then
        (if - 2147483648 \<le> i \<and> i \<le> 2147483647
         then Inr (ConstTensor (Int32Vec [i]) dshape) else Inl rangeViolation)
      else if w = 64 then
        (if - 9223372036854775808 \<le> i \<and> i \<le> 9223372036854775807
         then Inr (ConstTensor (Int64Vec [i]) dshape) else Inl rangeViolation)
      else Inl (MatchFailure ''Unsupported integer type''))
   \<and> torchScalarToTosaTensor fp (TorchConstantFloat v) (IntegerType w) dshape =
     (if w = 32 then
        (if doubleEq fp v (fromInt fp (toInt32 fp v))
         then Inr (ConstTensor (Int32Vec [toInt32 fp v]) dshape) else Inl rangeViolation)
      else if w = 64 then
        (if doubleEq fp v (fromInt fp (toInt64 fp v))
         then Inr (ConstTensor (Int64Vec [toInt64 fp v]) dshape) else Inl rangeViolation)
      else Inl (MatchFailure ''Unsupported integer type''))"
  by (simp add: signed_take_bit_31_id)

text \<open>
  The witness runs the model on doubles that hold integers: conversion to an integer type
  keeps the low bits, conversion back is exact.
\<close>

theorem liftScalar_integer_destination_witness:
  "(let fp = \<lparr>toInt32 = signed_take_bit 31, toInt64 = signed_take_bit 63,
              fromInt = (\<lambda>i. i), doubleEq = (=)\<rparr> :: int doubleOps
    in torchScalarToTosaTensor fp (TorchConstantInt 7) (IntegerType 32) []
         = Inr (ConstTensor (Int32Vec [7]) [])
     \<and> torchScalarToTosaTensor fp (TorchConstantInt 2147483648) (IntegerType 32) []
         = Inl rangeViolation
     \<and> torchScalarToTosaTensor fp (TorchConstantInt 2147483648) (IntegerType 64) []
         = Inr (ConstTensor (Int64Vec [2147483648]) [])
     \<and> torchScalarToTosaTensor fp (TorchConstantInt 7) (IntegerType 8) []
         = Inl (MatchFailure ''Unsupported integer type'')
     \<and> torchScalarToTosaTensor fp (TorchConstantFloat 4294967296) (IntegerType 32) []
         = Inl rangeViolation
     \<and> torchScalarToTosaTensor fp (TorchConstantFloat 3) (IntegerType 32) []
         = Inr (ConstTensor (Int32Vec [3]) []))"
proof -
  let ?fp = "\<lparr>toInt32 = signed_take_bit 31, toInt64 = signed_take_bit 63,
              fromInt = (\<lambda>i. i), doubleEq = (=)\<rparr> :: int doubleOps"
  have a: "signed_take_bit 31 (4294967296::int) = 0" "signed_take_bit 31 (3::int) = 3"
    by (simp_all add: signed_take_bit_eq_take_bit_minus take_bit_eq_mod bit_iff_odd)
  show ?thesis
    unfolding Let_def
    using liftScalar_integer_destination [of ?fp 7 32 "[]" 3]
          liftScalar_integer_destination [of ?fp 2147483648 32 "[]" 4294967296]
          liftScalar_integer_destination [of ?fp 2147483648 64 "[]" 3]
          liftScalar_integer_destination [of ?fp 7 8 "[]" 3]
    by (simp add: a)
qed

section \<open>The alpha multiply of add and subtract\<close>

lemma torchScalarToTosaTensor_elemType:
  assumes "torchScalarToTosaTensor fp s dtype dshape = Inr t"
  shows "getElementType (getType t) =
           (case dtype of FloatType w \<Rightarrow> FloatType 32 | IntegerType w \<Rightarrow> IntegerType w
            | OtherType \<Rightarrow> OtherType)"
  using assms
  by (cases s; cases dtype)
     (auto split: if_splits sum.splits simp: rangeViolation_def)

lemma torchAlphaToTosaTensor_cases:
  assumes "torchAlphaToTosaTensor fp alpha dtype False = Inr t"
  shows "torchScalarToTosaTensor fp alpha dtype [] = Inr t
         \<or> (\<exists>a. alpha = TorchConstantInt a \<and> t = ConstTensorSingleF32 a)"
  using assms
  by (auto simp: torchAlphaToTosaTensor_def split: sum.splits torchScalar.splits)

text \<open>
  The declared types of a successful legalization. Its result is built on one multiply of
  the right operand by alpha, declared with element type \<open>mulElemTy\<close>: the output element
  type when that is a float type, and the 32-bit integer type for every integer output.
  The output element type is then a float type, \<open>i32\<close> or \<open>i64\<close>. For an integer output
  both tensor operands of the add or subtract, and the right operand of the multiply, are
  32-bit; for \<open>i64\<close> the add or subtract itself is declared 32-bit on the output shape and
  a cast to the output type follows. The alpha operand is not always of that type: it is
  the scalar lifted to \<open>mulElemTy\<close>, or the single-F32 constant of an integer alpha that
  could not be lifted.
\<close>

lemma addSub_declared_types:
  assumes ok: "addSubMatchAndRewrite fp tosaOp self other alpha outType = Inr out"
  shows "\<exists>lhs' rhsTensor alphaTensor multType.
           (let outElemTy = getElementType outType;
                mulElemTy = (if isFloatType outElemTy then outElemTy else IntegerType 32);
                multTensor = MulOp multType rhsTensor alphaTensor 0
            in getElementType multType = mulElemTy
             \<and> (isFloatType outElemTy \<or> outElemTy = IntegerType 32 \<or> outElemTy = IntegerType 64)
             \<and> (isIntegerType outElemTy \<longrightarrow>
                   getElementType (getType rhsTensor) = IntegerType 32
                 \<and> getElementType (getType lhs') = IntegerType 32)
             \<and> (torchScalarToTosaTensor fp alpha mulElemTy [] = Inr alphaTensor
                  \<or> (\<exists>a. alpha = TorchConstantInt a \<and> alphaTensor = ConstTensorSingleF32 a))
             \<and> out = (if outElemTy = IntegerType 64
                      then CastOp outType
                             (BinaryOp tosaOp (RankedTensorType (getShape outType) (IntegerType 32))
                                lhs' multTensor)
                      else BinaryOp tosaOp outType lhs' multTensor))"
proof -
  obtain lhs where self: "self = TensorOperand lhs"
    using ok by (cases self) (auto simp: addSubMatchAndRewrite_def)
  show ?thesis
  proof (cases other)
    case (TensorOperand rhs)
    show ?thesis
      using ok unfolding self TensorOperand addSubMatchAndRewrite_def Let_def
      by (cases "getElementType outType")
         (auto split: if_splits sum.splits elemType.splits
               dest!: torchAlphaToTosaTensor_cases)
  next
    case (ScalarOperand s)
    show ?thesis
      using ok unfolding self ScalarOperand addSubMatchAndRewrite_def Let_def
      by (cases s; cases "getElementType outType")
         (auto split: if_splits sum.splits elemType.splits simp: rangeViolation_def
               dest!: torchAlphaToTosaTensor_cases)
  qed
qed

lemma addSub_declared_types_example:
  "(let fp = \<lparr>toInt32 = signed_take_bit 31, toInt64 = signed_take_bit 63,
              fromInt = (\<lambda>i. i), doubleEq = (=)\<rparr> :: int doubleOps;
        i64 = RankedTensorType [2, 3] (IntegerType 64);
        i32 = RankedTensorType [2, 3] (IntegerType 32);
        a = Operand ''a'' i64; b = Operand ''b'' i64
    in addSubMatchAndRewrite fp AddOp (TensorOperand a) (TensorOperand b)
         (TorchConstantInt 2) i64
       = Inr (CastOp i64
                (BinaryOp AddOp i32 (CastOp i32 a)
                   (MulOp i32 (CastOp i32 b) (ConstTensor (Int32Vec [2]) []) 0))))"
proof -
  let ?fp = "\<lparr>toInt32 = signed_take_bit 31, toInt64 = signed_take_bit 63,
              fromInt = (\<lambda>i. i), doubleEq = (=)\<rparr> :: int doubleOps"
  let ?i64 = "RankedTensorType [2, 3] (IntegerType 64)"
  let ?i32 = "RankedTensorType [2, 3] (IntegerType 32)"
  let ?a = "Operand ''a'' ?i64 :: int val"
  let ?b = "Operand ''b'' ?i64 :: int val"
  have two: "signed_take_bit 31 (2::int) = 2"
    by (simp add: signed_take_bit_31_id)
  have ok: "addSubMatchAndRewrite ?fp AddOp (TensorOperand ?a) (TensorOperand ?b)
              (TorchConstantInt 2) ?i64
            = Inr (CastOp ?i64
                (BinaryOp AddOp ?i32 (CastOp ?i32 ?a)
                   (MulOp ?i32 (CastOp ?i32 ?b) (ConstTensor (Int32Vec [2]) []) 0)))"
    by (simp add: addSubMatchAndRewrite_def torchAlphaToTosaTensor_def Let_def two)
  show ?thesis
    unfolding Let_def
    using addSub_declared_types [OF ok] ok by simp
qed

text \<open>
  Claim C6 says that for an integer output the alpha multiply is performed in 32-bit
  integer arithmetic. The code breaks this for an integer alpha outside the 32-bit range,
  here \<open>2147483649\<close> on 64-bit integer tensors: lifting alpha to \<open>i32\<close> fails its range
  check, \<^verbatim>\<open>torchAlphaToTosaTensor\<close> falls back to the single-F32 constant, and the multiply
  that is declared \<open>i32\<close> takes a 32-bit integer tensor and a float constant. The comment
  above the multiply asks for inputs of the same data type.
\<close>

theorem addSub_alpha_outside_int32_float_operand:
  "(let i64 = RankedTensorType [2, 3] (IntegerType 64);
        i32 = RankedTensorType [2, 3] (IntegerType 32);
        a = Operand ''a'' i64; b = Operand ''b'' i64;
        alphaTensor = ConstTensorSingleF32 2147483649
    in torchScalarToTosaTensor fp (TorchConstantInt 2147483649) (IntegerType 32) []
         = Inl rangeViolation
     \<and> torchAlphaToTosaTensor fp (TorchConstantInt 2147483649) (IntegerType 32) False
         = Inr alphaTensor
     \<and> addSubMatchAndRewrite fp AddOp (TensorOperand a) (TensorOperand b)
         (TorchConstantInt 2147483649) i64
       = Inr (CastOp i64
                (BinaryOp AddOp i32 (CastOp i32 a)
                   (MulOp i32 (CastOp i32 b) alphaTensor 0)))
     \<and> getElementType (getType (CastOp i32 b)) = IntegerType 32
     \<and> getElementType (getType alphaTensor) = FloatType 32)"
  by (simp add: addSubMatchAndRewrite_def torchAlphaToTosaTensor_def Let_def)

section \<open>Less-than and not-equal\<close>

text \<open>
  Claim C9. When the comparison legalization of a less-than operator (tensor or scalar
  form) succeeds, its result is the target's greater-than with the right operand first
  and the left operand second; for a not-equal operator it is the target's equal on the
  operands in their order, under a logical-not. The right operand is the operand
  itself, or the scalar lifted to the left operand's element type. On integer elements
  the results then are \<open>x < y\<close> and \<open>x \<noteq> y\<close> for an element \<open>x\<close> of the left and \<open>y\<close> of
  the right operand.
\<close>

theorem compare_lt_ne_legalization:
  assumes ok: "compareMatchAndRewrite fp atenOp (compareTosaOp atenOp) self other resultTy
                 = Inr out"
  shows "\<exists>lhs rhsTensor.
           self = TensorOperand lhs
         \<and> (other = TensorOperand rhsTensor
              \<or> (\<exists>s. other = ScalarOperand s
                    \<and> torchScalarToTosaTensor fp s (getElementType (getType lhs)) []
                        = Inr rhsTensor))
         \<and> (atenOp = AtenLtTensorOp \<or> atenOp = AtenLtScalarOp \<longrightarrow>
               out = BinaryOp GreaterOp resultTy rhsTensor lhs
             \<and> (\<forall>\<rho> x y. elemValue \<rho> lhs = Some x \<and> elemValue \<rho> rhsTensor = Some y
                    \<longrightarrow> elemTruth \<rho> out = Some (x < y)))
         \<and> (atenOp = AtenNeTensorOp \<or> atenOp = AtenNeScalarOp \<longrightarrow>
               out = LogicalNotOp resultTy (BinaryOp EqualOp resultTy lhs rhsTensor)
             \<and> (\<forall>\<rho> x y. elemValue \<rho> lhs = Some x \<and> elemValue \<rho> rhsTensor = Some y
                    \<longrightarrow> elemTruth \<rho> out = Some (x \<noteq> y)))"
proof -
  obtain lhs where self: "self = TensorOperand lhs"
    using ok by (cases self) (auto simp: compareMatchAndRewrite_def)
  show ?thesis
    using ok unfolding self compareMatchAndRewrite_def Let_def
    by (cases other; cases atenOp)
       (auto split: if_splits sum.splits simp: isBitwiseOp_def swapLhsRhs_def)
qed

theorem compare_lt_ne_legalization_witness:
  "(let fp = \<lparr>toInt32 = signed_take_bit 31, toInt64 = signed_take_bit 63,
              fromInt = (\<lambda>i. i), doubleEq = (=)\<rparr> :: int doubleOps;
        ty = RankedTensorType [2, 3] (IntegerType 32);
        resultTy = RankedTensorType [2, 3] (IntegerType 1);
        a = Operand ''a'' ty; b = Operand ''b'' ty;
        \<rho> = (\<lambda>n. if n = ''a'' then 3 else 5)
    in compareMatchAndRewrite fp AtenLtTensorOp (compareTosaOp AtenLtTensorOp)
         (TensorOperand a) (TensorOperand b) resultTy = Inr (BinaryOp GreaterOp resultTy b a)
     \<and> elemTruth \<rho> (BinaryOp GreaterOp resultTy b a) = Some True
     \<and> compareMatchAndRewrite fp AtenNeScalarOp (compareTosaOp AtenNeScalarOp)
         (TensorOperand a) (ScalarOperand (TorchConstantInt 3)) resultTy
         = Inr (LogicalNotOp resultTy (BinaryOp EqualOp resultTy a (ConstTensor (Int32Vec [3]) [])))
     \<and> elemTruth \<rho> (LogicalNotOp resultTy
                        (BinaryOp EqualOp resultTy a (ConstTensor (Int32Vec [3]) []))) = Some False)"
proof -
  let ?fp = "\<lparr>toInt32 = signed_take_bit 31, toInt64 = signed_take_bit 63,
              fromInt = (\<lambda>i. i), doubleEq = (=)\<rparr> :: int doubleOps"
  let ?ty = "RankedTensorType [2, 3] (IntegerType 32)"
  let ?rty = "RankedTensorType [2, 3] (IntegerType 1)"
  have three: "signed_take_bit 31 (3::int) = 3"
    by (simp add: signed_take_bit_31_id)
  have lt: "compareMatchAndRewrite ?fp AtenLtTensorOp (compareTosaOp AtenLtTensorOp)
         (TensorOperand (Operand ''a'' ?ty)) (TensorOperand (Operand ''b'' ?ty)) ?rty
         = Inr (BinaryOp GreaterOp ?rty (Operand ''b'' ?ty) (Operand ''a'' ?ty))"
    by (simp add: compareMatchAndRewrite_def isBitwiseOp_def swapLhsRhs_def Let_def)
  have ne: "compareMatchAndRewrite ?fp AtenNeScalarOp (compareTosaOp AtenNeScalarOp)
         (TensorOperand (Operand ''a'' ?ty)) (ScalarOperand (TorchConstantInt 3)) ?rty
         = Inr (LogicalNotOp ?rty (BinaryOp EqualOp ?rty (Operand ''a'' ?ty)
                  (ConstTensor (Int32Vec [3]) [])))"
    by (simp add: compareMatchAndRewrite_def isBitwiseOp_def swapLhsRhs_def Let_def three)
  show ?thesis
    unfolding Let_def
    using compare_lt_ne_legalization [OF lt] compare_lt_ne_legalization [OF ne] lt ne
    by simp
qed

section \<open>All-dims argmax is a chain of single-dimension argmax\<close>

lemma argMaxChain_buildArgmax:
  "argMaxChain (buildArgmax c keepDim reduceDim v) =
     ((reduceDim, IntegerType 32) # fst (argMaxChain v), snd (argMaxChain v))"
  by (simp add: buildArgmax_def Let_def split: prod.splits)

lemma argMaxChain_argmaxAllDims:
  "argMaxChain (argmaxAllDims c keepDim n v) =
     (replicate n (0, IntegerType 32) @ fst (argMaxChain v), snd (argMaxChain v))"
proof (induction n arbitrary: v)
  case 0
  then show ?case by simp
next
  case (Suc n)
  show ?case
    by (simp add: Suc.IH argMaxChain_buildArgmax replicate_app_Cons_same)
qed

text \<open>
  Claim C5. For an argmax with no constant dimension and a constant keepdim, on an operand
  of rank \<open>R\<close>, the legalization succeeds with an \<^verbatim>\<open>arith.extsi\<close> whose input is a chain of
  exactly \<open>R\<close> \<^verbatim>\<open>tosa.argmax\<close> operators on the operand, each reducing dimension \<open>0\<close> of the
  one below and each with 32-bit integer results; the sign extension has the element
  type of the operator's declared result (the 64-bit index type) and is not the target's
  cast.
\<close>

theorem argmax_all_dims_chain:
  "\<exists>outTy chain.
     argmaxMatchAndRewrite c (Operand nm selfTy) NotConstant (Constant keepDim) resultTy
       = Inr (ExtSIOp outTy chain)
   \<and> getElementType outTy = getElementType resultTy
   \<and> argMaxChain chain
       = (replicate (length (getShape selfTy)) (0, IntegerType 32), Operand nm selfTy)"
  by (simp add: argmaxMatchAndRewrite_def castToInt64_def Let_def argMaxChain_argmaxAllDims)

theorem argmax_all_dims_chain_witness:
  "(let self = Operand ''x'' (RankedTensorType [4, 5] (FloatType 32)) :: int val;
        i32 = IntegerType 32
    in argmaxMatchAndRewrite torchMlirMarkers self NotConstant (Constant False)
         (RankedTensorType [] (IntegerType 64))
       = Inr (ExtSIOp (RankedTensorType [] (IntegerType 64))
                (ArgMaxOp (RankedTensorType [] i32)
                   (ArgMaxOp (RankedTensorType [5] i32) self 0) 0)))"
proof -
  let ?self = "Operand ''x'' (RankedTensorType [4, 5] (FloatType 32)) :: int val"
  have two: "length [4, 5 :: int] = Suc (Suc 0)"
    by simp
  have ok: "argmaxMatchAndRewrite torchMlirMarkers ?self NotConstant (Constant False)
         (RankedTensorType [] (IntegerType 64))
       = Inr (ExtSIOp (RankedTensorType [] (IntegerType 64))
                (ArgMaxOp (RankedTensorType [] (IntegerType 32))
                   (ArgMaxOp (RankedTensorType [5] (IntegerType 32)) ?self 0) 0))"
    by (simp add: argmaxMatchAndRewrite_def castToInt64_def Let_def two buildArgmax_def
          makeShapeTorchCompatible_def makeShapeLLVMCompatible_def torchMlirMarkers_def)
  show ?thesis
    unfolding Let_def
    using argmax_all_dims_chain [of torchMlirMarkers "''x''"
            "RankedTensorType [4, 5] (FloatType 32)" False "RankedTensorType [] (IntegerType 64)"]
          ok
    by simp
qed

section \<open>Reshape, view and flatten: constant arguments\<close>

lemma auto_sz_count:
  "sum_list (map (\<lambda>s. if s = - 1 then 1 else 0) newShape) = int (count_list newShape (- 1 :: int))"
  by (induction newShape) auto

text \<open>
  Claim C7, as stated, fails for the view legalizer: a constant size list with two \<open>-1\<close>
  entries is accepted.
\<close>

theorem view_accepts_two_inferred_dims:
  "viewMatchAndRewrite (Operand ''x'' (RankedTensorType [2, 3] (FloatType 32)) :: int val)
     (Constant [- 1, - 1]) (RankedTensorType [2, 3] (FloatType 32))
   = Inr (ReshapeOp (RankedTensorType [2, 3] (FloatType 32))
            (Operand ''x'' (RankedTensorType [2, 3] (FloatType 32))) [- 1, - 1])"
  by (simp add: viewMatchAndRewrite_def)

text \<open>
  Claim C7, amended. The reshape legalizer fails for a target-shape list that is not
  constant, fails for a constant list with two or more \<open>-1\<close> entries, and succeeds for
  every other constant list. The view legalizer fails for a size list that is not
  constant. The flatten legalizer has no target-shape list; it fails when its start or
  end dimension is not constant.
\<close>

theorem reshape_view_flatten_constant_arguments:
  "reshapeMatchAndRewrite c self NotConstant
     = Inl (MatchFailure ''Only constant shape supported in TOSA Reshape'')
   \<and> reshapeMatchAndRewrite c self (Constant newShape)
     = (if count_list newShape (- 1) > 1
        then Inl (MatchFailure
          ''At most one dimension may be specified as -1 to automatically calculate its size'')
        else Inr (ReshapeOp (RankedTensorType (makeShapeLLVMCompatible c newShape)
                               (getElementType (getType self))) self newShape))
   \<and> isl (viewMatchAndRewrite self NotConstant resultTy)
   \<and> isl (flattenMatchAndRewrite c self NotConstant endDimArg resultTy)
   \<and> isl (flattenMatchAndRewrite c self startDimArg NotConstant resultTy)"
proof -
  have fl: "isl (flattenMatchAndRewrite c self startDimArg NotConstant resultTy)"
    by (cases startDimArg) (simp_all add: flattenMatchAndRewrite_def Let_def)
  show ?thesis
    using fl
    by (simp add: reshapeMatchAndRewrite_def viewMatchAndRewrite_def
          flattenMatchAndRewrite_def Let_def auto_sz_count)
qed

theorem reshape_view_flatten_constant_arguments_witness:
  "(let x = Operand ''x'' (RankedTensorType [2, 3] (FloatType 32)) :: int val
    in reshapeMatchAndRewrite torchMlirMarkers x (Constant [- 1, - 1])
         = Inl (MatchFailure
             ''At most one dimension may be specified as -1 to automatically calculate its size'')
     \<and> reshapeMatchAndRewrite torchMlirMarkers x (Constant [- 1, 2])
         = Inr (ReshapeOp (RankedTensorType [- 9223372036854775808, 2] (FloatType 32)) x [- 1, 2])
     \<and> isl (flattenMatchAndRewrite torchMlirMarkers x NotConstant (Constant 1)
               (RankedTensorType [6] (FloatType 32))))"
proof -
  let ?x = "Operand ''x'' (RankedTensorType [2, 3] (FloatType 32)) :: int val"
  show ?thesis
    unfolding Let_def
    using reshape_view_flatten_constant_arguments
            [of torchMlirMarkers ?x "[- 1, - 1]" "RankedTensorType [6] (FloatType 32)" "Constant 1"
               NotConstant]
          reshape_view_flatten_constant_arguments
            [of torchMlirMarkers ?x "[- 1, 2]" "RankedTensorType [6] (FloatType 32)" "Constant 1"
               NotConstant]
    by (simp add: makeShapeLLVMCompatible_def torchMlirMarkers_def)
qed

section \<open>Broadcast-to\<close>

text \<open>
  Claim C8, as stated, fails: a broadcast of a zero-ranked input to rank two changes the
  rank and succeeds.
\<close>

theorem broadcast_zero_rank_changes_rank:
  "broadcastToMatchAndRewrite torchMlirMarkers (\<lambda>u::bool. u)
     (Operand ''x'' (RankedTensorType [] (FloatType 32)) :: int val) (Constant [2, 3]) []
   = Inr (Operand ''x'' (RankedTensorType [] (FloatType 32)))"
  by (simp add: broadcastToMatchAndRewrite_def hasStaticShape_def
        makeShapeTorchCompatible_def)

text \<open>
  Claim C8, amended. The broadcast-to legalization succeeds exactly when the input has a
  static shape and an integer or float element type, the size list is constant, the
  requested rank equals the input rank or the input is zero-ranked, and the requested
  shape equals the input shape or no user of the result is view-like. So every
  rank-changing broadcast of an input that is not zero-ranked fails. On success nothing
  is emitted: the result is the input value itself.
\<close>

theorem broadcastTo_success_conditions:
  "(let selfType = getType self;
        inputShape = makeShapeTorchCompatible c (getShape selfType);
        result = broadcastToMatchAndRewrite c isViewLikeOp self sizeArg users
    in (isl result \<or> result = Inr self)
     \<and> (result = Inr self \<longleftrightarrow>
          hasStaticShape c selfType \<and> isIntOrFloat (getElementType selfType)
        \<and> (\<exists>outShape. sizeArg = Constant outShape
              \<and> (length inputShape = length outShape \<or> length inputShape = 0)
              \<and> (inputShape = outShape \<or> \<not> list_ex isViewLikeOp users)))
     \<and> (\<forall>outShape. sizeArg = Constant outShape \<and> length inputShape \<noteq> length outShape
            \<and> length inputShape \<noteq> 0 \<longrightarrow> isl result))"
  by (cases sizeArg) (auto simp: broadcastToMatchAndRewrite_def Let_def)

theorem broadcastTo_success_conditions_witness:
  "(let x = Operand ''x'' (RankedTensorType [1, 3] (FloatType 32)) :: int val
    in broadcastToMatchAndRewrite torchMlirMarkers (\<lambda>u::bool. u) x (Constant [2, 3]) [False]
         = Inr x
     \<and> isl (broadcastToMatchAndRewrite torchMlirMarkers (\<lambda>u::bool. u) x (Constant [2, 3]) [True])
     \<and> isl (broadcastToMatchAndRewrite torchMlirMarkers (\<lambda>u::bool. u) x (Constant [4, 1, 3]) []))"
proof -
  let ?x = "Operand ''x'' (RankedTensorType [1, 3] (FloatType 32)) :: int val"
  have st: "hasStaticShape torchMlirMarkers (RankedTensorType [1, 3] (FloatType 32))"
    by (simp add: hasStaticShape_def isDynamic_def torchMlirMarkers_def)
  have sh: "makeShapeTorchCompatible torchMlirMarkers [1, 3] = [1, 3]"
    by (simp add: makeShapeTorchCompatible_def torchMlirMarkers_def)
  show ?thesis
    unfolding Let_def
    using broadcastTo_success_conditions
            [of ?x torchMlirMarkers "\<lambda>u::bool. u" "Constant [2, 3]" "[False]"]
          broadcastTo_success_conditions
            [of ?x torchMlirMarkers "\<lambda>u::bool. u" "Constant [2, 3]" "[True]"]
          broadcastTo_success_conditions
            [of ?x torchMlirMarkers "\<lambda>u::bool. u" "Constant [4, 1, 3]" "[]"]
    by (auto simp: Let_def st sh)
qed

section \<open>Embedding accepts rank-2 indices and weights only\<close>

text \<open>
  Claim C10. The embedding legalization succeeds only for indices of integer element type
  and rank \<open>2\<close> and a weight of rank \<open>2\<close>. Integer indices of another rank fail with the
  match failure "indices must be of rank 2"; with rank-2 integer indices, a weight of
  another rank fails with the error "weight must be of rank 2".
\<close>

theorem embedding_requires_rank_two:
  "(let result = embeddingMatchAndRewrite c weight indices paddingIdxArg scaleGradByFreqArg
                   sparseArg outType;
        indicesType = getType indices; weightType = getType weight
    in (\<not> isl result \<longrightarrow>
          isIntegerType (getElementType indicesType)
        \<and> length (getShape indicesType) = 2 \<and> length (getShape weightType) = 2)
     \<and> (isIntegerType (getElementType indicesType) \<and> length (getShape indicesType) \<noteq> 2
          \<longrightarrow> result = Inl (MatchFailure ''indices must be of rank 2''))
     \<and> (isIntegerType (getElementType indicesType) \<and> length (getShape indicesType) = 2
        \<and> length (getShape weightType) \<noteq> 2
          \<longrightarrow> result = Inl (EmitError ''weight must be of rank 2'')))"
  by (auto simp: embeddingMatchAndRewrite_def Let_def getRank_def
           split: torchConstant.splits if_splits)

theorem embedding_requires_rank_two_witness:
  "(let w = Operand ''weight'' (RankedTensorType [10, 4] (FloatType 32)) :: int val;
        i2 = Operand ''indices'' (RankedTensorType [2, 3] (IntegerType 64));
        i3 = Operand ''indices'' (RankedTensorType [2, 3, 5] (IntegerType 64));
        w3 = Operand ''weight'' (RankedTensorType [1, 10, 4] (FloatType 32));
        outType = RankedTensorType [2, 3, 4] (FloatType 32)
    in embeddingMatchAndRewrite torchMlirMarkers w i2 (Constant (- 1)) (Constant False)
         (Constant False) outType
       = Inr (ReshapeOp outType
                (GatherOp (RankedTensorType [1, 6, 4] (FloatType 32))
                   (ReshapeOp (RankedTensorType [1, 10, 4] (FloatType 32)) w [1, 10, 4])
                   (CastOp (RankedTensorType [1, 6] (IntegerType 32))
                      (ReshapeOp (RankedTensorType [1, 6] (IntegerType 64)) i2 [1, 6])))
                [2, 3, 4])
     \<and> embeddingMatchAndRewrite torchMlirMarkers w i3 (Constant (- 1)) (Constant False)
         (Constant False) outType
       = Inl (MatchFailure ''indices must be of rank 2'')
     \<and> embeddingMatchAndRewrite torchMlirMarkers w3 i2 (Constant (- 1)) (Constant False)
         (Constant False) outType
       = Inl (EmitError ''weight must be of rank 2''))"
proof -
  let ?w = "Operand ''weight'' (RankedTensorType [10, 4] (FloatType 32)) :: int val"
  let ?i2 = "Operand ''indices'' (RankedTensorType [2, 3] (IntegerType 64)) :: int val"
  let ?i3 = "Operand ''indices'' (RankedTensorType [2, 3, 5] (IntegerType 64)) :: int val"
  let ?w3 = "Operand ''weight'' (RankedTensorType [1, 10, 4] (FloatType 32)) :: int val"
  let ?o = "RankedTensorType [2, 3, 4] (FloatType 32)"
  have m: "mul64 (mul64 1 2) 3 = 6"
    by (simp add: mul64_def signed_take_bit_int_eq_self)
  have ok: "embeddingMatchAndRewrite torchMlirMarkers ?w ?i2 (Constant (- 1)) (Constant False)
         (Constant False) ?o
       = Inr (ReshapeOp ?o
                (GatherOp (RankedTensorType [1, 6, 4] (FloatType 32))
                   (ReshapeOp (RankedTensorType [1, 10, 4] (FloatType 32)) ?w [1, 10, 4])
                   (CastOp (RankedTensorType [1, 6] (IntegerType 32))
                      (ReshapeOp (RankedTensorType [1, 6] (IntegerType 64)) ?i2 [1, 6])))
                [2, 3, 4])"
    by (simp add: embeddingMatchAndRewrite_def Let_def getRank_def hasStaticShape_def
          isDynamic_def makeShapeTorchCompatible_def makeShapeLLVMCompatible_def
          torchMlirMarkers_def m)
  show ?thesis
    unfolding Let_def
    using embedding_requires_rank_two
            [of torchMlirMarkers ?w ?i3 "Constant (- 1)" "Constant False" "Constant False" ?o]
          embedding_requires_rank_two
            [of torchMlirMarkers ?w3 ?i2 "Constant (- 1)" "Constant False" "Constant False" ?o]
          ok
    by (simp add: Let_def)
qed

section \<open>Matrix multiplication: the inputs of the target primitive\<close>

lemma length_makeShapeTorchCompatible [simp]:
  "length (makeShapeTorchCompatible c s) = length s"
  by (simp add: makeShapeTorchCompatible_def)

lemma length_makeShapeLLVMCompatible [simp]:
  "length (makeShapeLLVMCompatible c s) = length s"
  by (simp add: makeShapeLLVMCompatible_def)

lemma maxInputRankOf_bounds:
  "lhsRank \<le> maxInputRankOf lhsRank rhsRank" "rhsRank \<le> maxInputRankOf lhsRank rhsRank"
  "maxInputRankOf lhsRank rhsRank \<noteq> 1"
  by (auto simp: maxInputRankOf_def Let_def)

lemma maxInputRankOf_ge2:
  "0 < a \<or> 0 < b \<Longrightarrow> 2 \<le> maxInputRankOf (int a) (int b)"
  by (auto simp: maxInputRankOf_def Let_def)

lemma length_getRankBroadcastedShape:
  assumes "getRank (getType t) \<le> m"
  shows "length (getRankBroadcastedShape c m t isRHS) = nat m"
  using assms by (auto simp: getRankBroadcastedShape_def Let_def getRank_def)

text \<open>
  A rank-broadcast shape holds sizes of the operand's shape in the source dialect's
  form and padding \<open>1\<close>s, so the two conversions leave it unchanged.
\<close>

lemma getRankBroadcastedShape_roundtrip:
  assumes "kDynamic c \<noteq> 1"
  shows "makeShapeTorchCompatible c
           (makeShapeLLVMCompatible c (getRankBroadcastedShape c m t isRHS))
         = getRankBroadcastedShape c m t isRHS"
proof -
  let ?f = "\<lambda>d. if d = kDynamic c then kUnknownSize c else d"
  let ?g = "\<lambda>d. if d = kUnknownSize c then kDynamic c else d"
  have el: "x = 1 \<or> (\<exists>d. x = ?f d)" if "x \<in> set (getRankBroadcastedShape c m t isRHS)" for x
  proof -
    have "x = 1 \<or> x \<in> set (makeShapeTorchCompatible c (getShape (getType t)))"
      using that
      by (auto simp: getRankBroadcastedShape_def Let_def getRank_def split: if_splits)
    then show ?thesis
      by (auto simp: makeShapeTorchCompatible_def)
  qed
  have "?f (?g x) = x" if "x \<in> set (getRankBroadcastedShape c m t isRHS)" for x
    using el [OF that] assms by (auto split: if_splits)
  then show ?thesis
    by (simp add: makeShapeTorchCompatible_def makeShapeLLVMCompatible_def map_idI)
qed

lemma rankBroadcasted_shape:
  assumes "kDynamic c \<noteq> 1" and "getRank (getType t) \<le> m"
  shows "makeShapeTorchCompatible c
           (getShape (getType (if getRank (getType t) = m then t
              else ReshapeOp (RankedTensorType
                     (makeShapeLLVMCompatible c (getRankBroadcastedShape c m t isRHS)) e)
                     t (getRankBroadcastedShape c m t isRHS))))
         = getRankBroadcastedShape c m t isRHS"
proof (cases "getRank (getType t) = m")
  case True
  then show ?thesis
    by (simp add: getRankBroadcastedShape_def Let_def)
next
  case False
  then show ?thesis
    using getRankBroadcastedShape_roundtrip [OF assms(1)] by simp
qed

lemma rankBroadcasted_rank:
  assumes "getRank (getType t) \<le> m"
  shows "getRank (getType (if getRank (getType t) = m then t
              else ReshapeOp (RankedTensorType
                     (makeShapeLLVMCompatible c (getRankBroadcastedShape c m t isRHS)) e)
                     t (getRankBroadcastedShape c m t isRHS))) = m"
proof -
  have "0 \<le> m" using assms by (simp add: getRank_def)
  then show ?thesis
    using length_getRankBroadcastedShape [OF assms, of c isRHS]
    by (simp add: getRank_def)
qed

lemma reshapeUpTo3DTensor_Inr:
  assumes "reshapeUpTo3DTensor c t = Inr t'"
  shows "(getRank (getType t) = 3 \<and> t' = t)
       \<or> (getRank (getType t) < 3 \<and>
            (\<exists>a b. t' = ReshapeOp (RankedTensorType (makeShapeLLVMCompatible c [1, a, b])
                                    (getElementType (getType t))) t [1, a, b]))"
  using assms by (auto simp: reshapeUpTo3DTensor_def Let_def split: if_splits)

lemma matmulInputs_batch:
  assumes neg: "kDynamic c \<noteq> 1" and ok: "matmulInputs c lhs rhs = Inr (ml, mr)"
  shows "length (getShape (getType ml)) = 3 \<and> length (getShape (getType mr)) = 3
       \<and> makeShapeTorchCompatible c (getShape (getType ml)) ! 0
           = makeShapeTorchCompatible c (getShape (getType mr)) ! 0"
proof -
  define m where "m = maxInputRankOf (getRank (getType lhs)) (getRank (getType rhs))"
  define L where "L = getRankBroadcastedShape c m lhs False"
  define R where "R = getRankBroadcastedShape c m rhs True"
  define rbL where "rbL = (if getRank (getType lhs) = m then lhs
      else ReshapeOp (RankedTensorType (makeShapeLLVMCompatible c L)
             (getElementType (getType lhs))) lhs L)"
  define rbR where "rbR = (if getRank (getType rhs) = m then rhs
      else ReshapeOp (RankedTensorType (makeShapeLLVMCompatible c R)
             (getElementType (getType rhs))) rhs R)"
  have lm: "getRank (getType lhs) \<le> m" and rm: "getRank (getType rhs) \<le> m"
    by (simp_all add: m_def maxInputRankOf_bounds)
  have rkL: "getRank (getType rbL) = m" and rkR: "getRank (getType rbR) = m"
    unfolding rbL_def rbR_def L_def R_def
    using rankBroadcasted_rank [OF lm] rankBroadcasted_rank [OF rm] by simp_all
  have shL: "makeShapeTorchCompatible c (getShape (getType rbL)) = L"
    unfolding rbL_def L_def using rankBroadcasted_shape [OF neg lm] by simp
  have shR: "makeShapeTorchCompatible c (getShape (getType rbR)) = R"
    unfolding rbR_def R_def using rankBroadcasted_shape [OF neg rm] by simp
  show ?thesis
  proof (cases "needsBatchDimBroadcast m L R")
    case False
    from ok False obtain a: "reshapeUpTo3DTensor c rbL = Inr ml"
      and b: "reshapeUpTo3DTensor c rbR = Inr mr"
      unfolding matmulInputs_def Let_def m_def [symmetric]
      unfolding L_def [symmetric] R_def [symmetric]
      unfolding rbL_def [symmetric] rbR_def [symmetric]
      by (auto split: sum.splits)
    show ?thesis
    proof (cases "m = 3")
      case True
      have "ml = rbL" "mr = rbR"
        using reshapeUpTo3DTensor_Inr [OF a] reshapeUpTo3DTensor_Inr [OF b] rkL rkR True
        by auto
      moreover have "L ! 0 = R ! 0"
        using False True by (auto simp: needsBatchDimBroadcast_def split: if_splits)
      moreover have "length (getShape (getType rbL)) = 3" "length (getShape (getType rbR)) = 3"
        using rkL rkR True by (simp_all add: getRank_def)
      ultimately show ?thesis
        using shL shR by simp
    next
      case m3: False
      have "m < 3"
        using False m3 by (auto simp: needsBatchDimBroadcast_def split: if_splits)
      then obtain a1 b1 a2 b2 where
        "ml = ReshapeOp (RankedTensorType (makeShapeLLVMCompatible c [1, a1, b1])
                           (getElementType (getType rbL))) rbL [1, a1, b1]"
        "mr = ReshapeOp (RankedTensorType (makeShapeLLVMCompatible c [1, a2, b2])
                           (getElementType (getType rbR))) rbR [1, a2, b2]"
        using reshapeUpTo3DTensor_Inr [OF a] reshapeUpTo3DTensor_Inr [OF b] rkL rkR
        by auto
      then show ?thesis
        by (simp add: makeShapeTorchCompatible_def makeShapeLLVMCompatible_def)
    qed
  next
    case True
    from ok True have ml: "ml = batchBroadcastMatmulLhs c (nat m) L R (getElementType (getType lhs))
                                  (getElementType (getType rhs)) rbL"
      and mr: "mr = batchBroadcastMatmulRhs c (nat m) L R (getElementType (getType rhs)) rbR"
      unfolding matmulInputs_def Let_def m_def [symmetric]
      unfolding L_def [symmetric] R_def [symmetric]
      unfolding rbL_def [symmetric] rbR_def [symmetric]
      by auto
    show ?thesis
      unfolding ml mr batchBroadcastMatmulLhs_def batchBroadcastMatmulRhs_def Let_def
      by (simp add: makeShapeTorchCompatible_def makeShapeLLVMCompatible_def)
  qed
qed

lemma matmulInputs_total:
  assumes that: "getShape (getType lhs) \<noteq> [] \<or> getShape (getType rhs) \<noteq> []"
  shows "\<not> isl (matmulInputs c lhs rhs)"
proof -
  define m where "m = maxInputRankOf (getRank (getType lhs)) (getRank (getType rhs))"
  define L where "L = getRankBroadcastedShape c m lhs False"
  define R where "R = getRankBroadcastedShape c m rhs True"
  define rbL where "rbL = (if getRank (getType lhs) = m then lhs
      else ReshapeOp (RankedTensorType (makeShapeLLVMCompatible c L)
             (getElementType (getType lhs))) lhs L)"
  define rbR where "rbR = (if getRank (getType rhs) = m then rhs
      else ReshapeOp (RankedTensorType (makeShapeLLVMCompatible c R)
             (getElementType (getType rhs))) rhs R)"
  have lm: "getRank (getType lhs) \<le> m" and rm: "getRank (getType rhs) \<le> m"
    by (simp_all add: m_def maxInputRankOf_bounds)
  have rkL: "getRank (getType rbL) = m" and rkR: "getRank (getType rbR) = m"
    unfolding rbL_def rbR_def L_def R_def
    using rankBroadcasted_rank [OF lm] rankBroadcasted_rank [OF rm] by simp_all
  have "0 < length (getShape (getType lhs)) \<or> 0 < length (getShape (getType rhs))"
    using that by auto
  then have m2: "2 \<le> m"
    unfolding m_def getRank_def by (rule maxInputRankOf_ge2)
  have r3: "\<exists>t'. reshapeUpTo3DTensor c t = Inr t'"
    if "getRank (getType t) = m" "m \<le> 3" for t :: "'a val"
    using that m2 by (auto simp: reshapeUpTo3DTensor_def Let_def getRank_def)
  show ?thesis
  proof (cases "needsBatchDimBroadcast m L R")
    case True
    then show ?thesis
      unfolding matmulInputs_def Let_def m_def [symmetric]
      unfolding L_def [symmetric] R_def [symmetric]
      by simp
  next
    case False
    then have "m \<le> 3"
      by (auto simp: needsBatchDimBroadcast_def split: if_splits)
    then obtain ml mr where "reshapeUpTo3DTensor c rbL = Inr ml"
      "reshapeUpTo3DTensor c rbR = Inr mr"
      using r3 rkL rkR by blast
    then show ?thesis
      unfolding matmulInputs_def Let_def m_def [symmetric]
      unfolding L_def [symmetric] R_def [symmetric]
      unfolding rbL_def [symmetric] rbR_def [symmetric]
      using False by simp
  qed
qed

lemma emittedMatMul_transposeIfRequired:
  "emittedMatMul (transposeIfRequired c ds sh e x) = emittedMatMul x"
  by (simp add: transposeIfRequired_def)

lemma performMatmul_mismatch:
  assumes "getElementType (getType lhs) \<noteq> getElementType (getType rhs)"
  shows "performMatmul c lhs rhs = Inl (MatchFailure ''Matmul: input datatypes mismatched'')"
  using assms by (simp add: performMatmul_def Let_def)

lemma performMatmul_Inl:
  assumes "getElementType (getType lhs) = getElementType (getType rhs)"
    and "matmulInputs c lhs rhs = Inl e"
  shows "performMatmul c lhs rhs = Inl e"
  using assms by (simp add: performMatmul_def Let_def)

lemma performMatmul_Inr:
  assumes "getElementType (getType lhs) = getElementType (getType rhs)"
    and "matmulInputs c lhs rhs = Inr (ml, mr)"
    and "makeShapeTorchCompatible c (getShape (getType ml)) ! 0
           = makeShapeTorchCompatible c (getShape (getType mr)) ! 0"
  shows "\<exists>out. performMatmul c lhs rhs = Inr out \<and> emittedMatMul out = Some (ml, mr)"
  using assms
  by (simp add: performMatmul_def Let_def emittedMatMul_transposeIfRequired
        split: prod.splits)

text \<open>
  Claim C2. For any two ranked operands, whatever their static and dynamic sizes, the
  assertion that the two inputs of \<^verbatim>\<open>tosa.matmul\<close> have the same batch size never fails;
  and when \<^verbatim>\<open>performMatmul\<close> succeeds, the one \<^verbatim>\<open>tosa.matmul\<close> under its output has two
  rank-3 inputs whose sizes in dimension \<open>0\<close> are equal. It succeeds whenever the element
  types agree and one operand has rank at least \<open>1\<close>.
\<close>

theorem matmul_batch_sizes_agree:
  assumes "markersNegative c"
  shows "performMatmul c lhs rhs \<noteq> Inl batchSizeAssertion
       \<and> (\<forall>out. performMatmul c lhs rhs = Inr out \<longrightarrow>
            (\<exists>ml mr. emittedMatMul out = Some (ml, mr)
               \<and> length (getShape (getType ml)) = 3 \<and> length (getShape (getType mr)) = 3
               \<and> makeShapeTorchCompatible c (getShape (getType ml)) ! 0
                   = makeShapeTorchCompatible c (getShape (getType mr)) ! 0))
       \<and> (getElementType (getType lhs) = getElementType (getType rhs)
            \<and> (getShape (getType lhs) \<noteq> [] \<or> getShape (getType rhs) \<noteq> [])
          \<longrightarrow> \<not> isl (performMatmul c lhs rhs))"
proof -
  have neg: "kDynamic c \<noteq> 1"
    using assms by (auto simp: markersNegative_def)
  have inl: "e \<noteq> batchSizeAssertion" if "matmulInputs c lhs rhs = Inl e" for e
    using that
    by (auto simp: matmulInputs_def Let_def reshapeUpTo3DTensor_def batchSizeAssertion_def
             split: if_splits sum.splits)
  note tot = matmulInputs_total [of lhs rhs c]
  show ?thesis
  proof (cases "getElementType (getType lhs) = getElementType (getType rhs)")
    case False
    then show ?thesis
      using performMatmul_mismatch [OF False, of c]
      by (simp add: batchSizeAssertion_def)
  next
    case eq: True
    show ?thesis
    proof (cases "matmulInputs c lhs rhs")
      case (Inl e)
      have "performMatmul c lhs rhs = Inl e"
        by (rule performMatmul_Inl [OF eq Inl])
      moreover have "getShape (getType lhs) = [] \<and> getShape (getType rhs) = []"
        using tot Inl by auto
      ultimately show ?thesis
        using inl [OF Inl] by simp
    next
      case (Inr p)
      obtain ml mr where p: "p = (ml, mr)"
        by (cases p)
      have mi: "matmulInputs c lhs rhs = Inr (ml, mr)"
        using Inr p by simp
      note b = matmulInputs_batch [OF neg mi]
      obtain out where out: "performMatmul c lhs rhs = Inr out"
        "emittedMatMul out = Some (ml, mr)"
        using performMatmul_Inr [OF eq mi] b by blast
      show ?thesis
        using out b by (simp add: batchSizeAssertion_def)
    qed
  qed
qed

text \<open>
  The witness has a dynamic batch dimension on the left: \<open>?x5x6\<close> times \<open>1x6x7\<close>.
\<close>

theorem matmul_batch_sizes_agree_witness:
  "map_sum id
     (map_option (\<lambda>(ml, mr). (getShape (getType ml), getShape (getType mr))) \<circ> emittedMatMul)
     (performMatmul torchMlirMarkers
        (Operand ''A'' (RankedTensorType [- 9223372036854775808, 5, 6] (FloatType 32)) :: int val)
        (Operand ''B'' (RankedTensorType [1, 6, 7] (FloatType 32))))
     = Inr (Some ([1, - 9223372036854775808, 6], [1, 6, 7]))
   \<and> performMatmul torchMlirMarkers
        (Operand ''A'' (RankedTensorType [- 9223372036854775808, 5, 6] (FloatType 32)) :: int val)
        (Operand ''B'' (RankedTensorType [1, 6, 7] (FloatType 32)))
       \<noteq> Inl batchSizeAssertion"
proof -
  let ?A = "Operand ''A'' (RankedTensorType [- 9223372036854775808, 5, 6] (FloatType 32)) :: int val"
  let ?B = "Operand ''B'' (RankedTensorType [1, 6, 7] (FloatType 32)) :: int val"
  have e: "map_sum id
     (map_option (\<lambda>(ml, mr). (getShape (getType ml), getShape (getType mr))) \<circ> emittedMatMul)
     (performMatmul torchMlirMarkers ?A ?B)
     = Inr (Some ([1, - 9223372036854775808, 6], [1, 6, 7]))"
    by code_simp
  have "performMatmul torchMlirMarkers ?A ?B \<noteq> Inl batchSizeAssertion"
    using matmul_batch_sizes_agree [OF markersNegative_torchMlirMarkers, of ?A ?B] by blast
  then show ?thesis
    using e by simp
qed

section \<open>Matrix multiplication: the shape of the output\<close>

lemma static_shape_ids:
  assumes "markersNegative c" and "\<forall>d\<in>set s. 0 \<le> d"
  shows "makeShapeTorchCompatible c s = s" and "makeShapeLLVMCompatible c s = s"
proof -
  have "d \<noteq> kDynamic c \<and> d \<noteq> kUnknownSize c" if "d \<in> set s" for d
    using assms that by (auto simp: markersNegative_def)
  then show "makeShapeTorchCompatible c s = s" and "makeShapeLLVMCompatible c s = s"
    by (simp_all add: makeShapeTorchCompatible_def makeShapeLLVMCompatible_def map_idI)
qed

lemma isTransposeRequiredFrom_sorted:
  "isTransposeRequiredFrom l ds \<longleftrightarrow> \<not> sorted (l # ds)"
proof (induction ds arbitrary: l)
  case Nil
  then show ?case by simp
next
  case (Cons d ds)
  have "sorted (l # d # ds) \<longleftrightarrow> l \<le> d \<and> sorted (d # ds)"
    by auto
  then show ?case
    using Cons.IH [of d] by (simp del: sorted_simps add: not_le)
qed

lemma isTransposeRequired_sorted:
  "isTransposeRequired (map int ds) \<longleftrightarrow> \<not> sorted ds"
proof -
  have "sorted ((- 1) # map int ds) \<longleftrightarrow> sorted (map int ds)"
    by auto
  also have "\<dots> \<longleftrightarrow> sorted ds"
    by (simp add: sorted_map)
  finally show ?thesis
    by (simp add: isTransposeRequired_def isTransposeRequiredFrom_sorted)
qed

lemma comprehension_filter:
  "concat (map (\<lambda>x. if P x then [f x] else []) xs) = map f (filter P xs)"
  by (induction xs) simp_all

lemma elems_static:
  assumes neg: "markersNegative c"
    and la: "length PA = n" and lb: "length PB = n"
    and sa: "\<forall>d\<in>set PA. 0 \<le> d" and sb: "\<forall>d\<in>set PB. 0 \<le> d"
  shows "commonElemsOf c (n + 2) (PA @ [M, K]) (PB @ [K', N])
           = map (\<lambda>d. (d, PA ! d)) (filter (\<lambda>d. PA ! d = PB ! d) [0..<n])"
    and "lhsSqueezedElemsOf c (n + 2) (PA @ [M, K]) (PB @ [K', N])
           = map (\<lambda>d. (d, PA ! d)) (filter (\<lambda>d. PA ! d \<noteq> PB ! d) [0..<n]) @ [(n, M)]"
    and "rhsSqueezedElemsOf c (n + 2) (PA @ [M, K]) (PB @ [K', N])
           = map (\<lambda>d. (d, PB ! d)) (filter (\<lambda>d. PB ! d \<noteq> PA ! d) [0..<n]) @ [(Suc n, N)]"
proof -
  let ?L = "PA @ [M, K]" and ?R = "PB @ [K', N]"
  have dynA: "\<not> isDynamic c (PA ! d)" if "d < n" for d
    using that sa la neg by (auto simp: isDynamic_def markersNegative_def dest!: nth_mem)
  have dynB: "\<not> isDynamic c (PB ! d)" if "d < n" for d
    using that sb lb neg by (auto simp: isDynamic_def markersNegative_def dest!: nth_mem)
  have f1: "filter (\<lambda>d. isDynamic c (?L ! d) \<or> ?L ! d = ?R ! d) [0..<n]
              = filter (\<lambda>d. PA ! d = PB ! d) [0..<n]"
    by (rule filter_cong) (auto simp: nth_append la lb dynA)
  have f2: "filter (\<lambda>d. \<not> isDynamic c (?L ! d) \<and> ?L ! d \<noteq> ?R ! d) [0..<n]
              = filter (\<lambda>d. PA ! d \<noteq> PB ! d) [0..<n]"
    by (rule filter_cong) (auto simp: nth_append la lb dynA)
  have f3: "filter (\<lambda>d. \<not> isDynamic c (?R ! d) \<and> ?R ! d \<noteq> ?L ! d) [0..<n]
              = filter (\<lambda>d. PB ! d \<noteq> PA ! d) [0..<n]"
    by (rule filter_cong) (auto simp: nth_append la lb dynB)
  have m1: "map (\<lambda>d. (d, ?L ! d)) (filter P [0..<n]) = map (\<lambda>d. (d, PA ! d)) (filter P [0..<n])"
    for P
    by (rule map_cong) (auto simp: nth_append la)
  have m2: "map (\<lambda>d. (d, ?R ! d)) (filter P [0..<n]) = map (\<lambda>d. (d, PB ! d)) (filter P [0..<n])"
    for P
    by (rule map_cong) (auto simp: nth_append lb)
  show "commonElemsOf c (n + 2) ?L ?R
           = map (\<lambda>d. (d, PA ! d)) (filter (\<lambda>d. PA ! d = PB ! d) [0..<n])"
    unfolding commonElemsOf_def comprehension_filter
    using f1 m1 by simp
  show "lhsSqueezedElemsOf c (n + 2) ?L ?R
           = map (\<lambda>d. (d, PA ! d)) (filter (\<lambda>d. PA ! d \<noteq> PB ! d) [0..<n]) @ [(n, M)]"
    unfolding lhsSqueezedElemsOf_def comprehension_filter
    using f2 m1 by (simp add: nth_append la)
  show "rhsSqueezedElemsOf c (n + 2) ?L ?R
           = map (\<lambda>d. (d, PB ! d)) (filter (\<lambda>d. PB ! d \<noteq> PA ! d) [0..<n]) @ [(Suc n, N)]"
    unfolding rhsSqueezedElemsOf_def comprehension_filter
    using f3 m2 by (simp add: nth_append lb)
qed

lemma computeOpShape_static:
  assumes neg: "markersNegative c" and n: "0 < n"
    and la: "length PA = n" and lb: "length PB = n"
    and sa: "\<forall>d\<in>set PA. 0 \<le> d" and sb: "\<forall>d\<in>set PB. 0 \<le> d"
    and lr: "1 < lhsRank" and rr: "1 < rhsRank"
  shows "computeOpShape c (int (n + 2)) lhsRank rhsRank lsh rsh (PA @ [M, K]) (PB @ [K', N]) =
     (map ((!) PA) (filter (\<lambda>d. PA ! d = PB ! d) [0..<n])
        @ map ((!) PA) (filter (\<lambda>d. PA ! d \<noteq> PB ! d \<and> PA ! d \<noteq> 1) [0..<n]) @ [M]
        @ map ((!) PB) (filter (\<lambda>d. PB ! d \<noteq> PA ! d \<and> PB ! d \<noteq> 1) [0..<n]) @ [N],
      filter (\<lambda>d. PA ! d = PB ! d) [0..<n]
        @ filter (\<lambda>d. PA ! d \<noteq> PB ! d \<and> PA ! d \<noteq> 1) [0..<n] @ [n]
        @ filter (\<lambda>d. PB ! d \<noteq> PA ! d \<and> PB ! d \<noteq> 1) [0..<n] @ [Suc n],
      map (\<lambda>i. if PA ! i = 1 then PB ! i else PA ! i) [0..<n] @ [M, N])"
proof -
  let ?L = "PA @ [M, K]" and ?R = "PB @ [K', N]"
  note el = elems_static [OF neg la lb sa sb, of M K K' N]
  have t: "map (\<lambda>i. if isDynamic c (makeShapeLLVMCompatible c ?L ! i) then kUnknownSize c
                      else if ?L ! i = ?R ! i then ?L ! i
                      else if ?L ! i = 1 then ?R ! i else ?L ! i) [0..<n]
           = map (\<lambda>i. if PA ! i = 1 then PB ! i else PA ! i) [0..<n]"
  proof (rule map_cong)
    fix i assume "i \<in> set [0..<n]"
    then have i: "i < n" by simp
    then have "0 \<le> PA ! i"
      using sa la by (auto dest!: nth_mem)
    then have "\<not> isDynamic c (makeShapeLLVMCompatible c ?L ! i)"
      using neg i la
      by (auto simp: makeShapeLLVMCompatible_def isDynamic_def markersNegative_def nth_append)
    then show "(if isDynamic c (makeShapeLLVMCompatible c ?L ! i) then kUnknownSize c
                      else if ?L ! i = ?R ! i then ?L ! i
                      else if ?L ! i = 1 then ?R ! i else ?L ! i)
               = (if PA ! i = 1 then PB ! i else PA ! i)"
      using i la lb by (auto simp: nth_append)
  qed simp
  have nn: "nat (int (n + 2)) - 2 = n" "nat (int (n + 2)) - 1 = Suc n" "nat (int (n + 2)) = n + 2"
    by simp_all
  have ln: "?L ! n = M" "?R ! Suc n = N"
    using la lb by (simp_all add: nth_append)
  have c3: "int (n + 2) \<noteq> 1" "int (n + 2) \<noteq> 2"
    using n by simp_all
  show ?thesis
    unfolding computeOpShape_def Let_def nn el
    using lr rr c3 t ln
    by (simp add: filter_map o_def)
qed

lemma sorted_partition_upt:
  assumes srt: "sorted (filter P [0..<n] @ filter Q [0..<n] @ [n] @ filter T [0..<n] @ [Suc n])"
    and ex: "\<forall>i<n. P i \<or> Q i \<or> T i" and dj: "\<forall>i<n. \<not> (P i \<and> Q i)"
  shows "filter T [0..<n] = []" and "filter P [0..<n] @ filter Q [0..<n] = [0..<n]"
proof -
  have "\<forall>x\<in>set (filter T [0..<n]). n \<le> x"
    using srt by (auto simp: sorted_append)
  then show T: "filter T [0..<n] = []"
    by (auto simp: filter_empty_conv)
  have s: "sorted (filter P [0..<n] @ filter Q [0..<n])"
    using srt by (simp add: sorted_append)
  have d: "distinct (filter P [0..<n] @ filter Q [0..<n])"
    using dj by auto
  have e: "set (filter P [0..<n] @ filter Q [0..<n]) = set [0..<n]"
    using ex T by (auto simp: filter_empty_conv)
  show "filter P [0..<n] @ filter Q [0..<n] = [0..<n]"
    by (rule sorted_distinct_set_unique [OF s d _ _ e]) simp_all
qed

lemma map2_nth:
  assumes "length xs = n" and "length ys = n"
  shows "map2 f xs ys = map (\<lambda>i. f (xs ! i) (ys ! i)) [0..<n]"
  using assms by (simp add: list_eq_iff_nth_eq)

text \<open>
  The shape \<^verbatim>\<open>computeOpShape\<close> gives the output, for static batch sizes: with a transpose
  it is the declared shape of the transpose; without one the permutation is the
  identity, no position broadcasts from the right, and the reshaped shape is the same.
\<close>

lemma computeOpShape_output:
  assumes neg: "markersNegative c" and n: "0 < n"
    and la: "length PA = n" and lb: "length PB = n"
    and sa: "\<forall>d\<in>set PA. 0 \<le> d" and sb: "\<forall>d\<in>set PB. 0 \<le> d"
    and lr: "1 < lhsRank" and rr: "1 < rhsRank"
    and cs: "computeOpShape c (int (n + 2)) lhsRank rhsRank lsh rsh (PA @ [M, K]) (PB @ [K', N])
               = (rs, ds, ts)"
  shows "(if isTransposeRequired (map int ds) then ts else rs)
           = map2 (\<lambda>x y. if x = 1 then y else x) PA PB @ [M, N]"
proof -
  let ?P = "\<lambda>d. PA ! d = PB ! d"
  let ?Q = "\<lambda>d. PA ! d \<noteq> PB ! d \<and> PA ! d \<noteq> 1"
  let ?T = "\<lambda>d. PB ! d \<noteq> PA ! d \<and> PB ! d \<noteq> 1"
  let ?g = "\<lambda>i. if PA ! i = 1 then PB ! i else PA ! i"
  note st = computeOpShape_static [OF neg n la lb sa sb lr rr, of lsh rsh M K K' N]
  have rs: "rs = map ((!) PA) (filter ?P [0..<n]) @ map ((!) PA) (filter ?Q [0..<n]) @ [M]
                   @ map ((!) PB) (filter ?T [0..<n]) @ [N]"
    and ds: "ds = filter ?P [0..<n] @ filter ?Q [0..<n] @ [n] @ filter ?T [0..<n] @ [Suc n]"
    and ts: "ts = map ?g [0..<n] @ [M, N]"
    using cs unfolding st by simp_all
  have m2: "map2 (\<lambda>x y. if x = 1 then y else x) PA PB = map ?g [0..<n]"
    by (rule map2_nth [OF la lb])
  show ?thesis
  proof (cases "sorted ds")
    case False
    then show ?thesis
      by (simp add: isTransposeRequired_sorted ts m2)
  next
    case True
    have ex: "\<forall>i<n. ?P i \<or> ?Q i \<or> ?T i" and dj: "\<forall>i<n. \<not> (?P i \<and> ?Q i)"
      by auto
    note sp = sorted_partition_upt [OF True [unfolded ds] ex dj]
    have noT: "\<not> ?T i" if "i < n" for i
      using sp(1) that by (auto simp: filter_empty_conv)
    have "map ((!) PA) (filter ?P [0..<n]) @ map ((!) PA) (filter ?Q [0..<n])
            = map ((!) PA) [0..<n]"
      using sp(2) by (metis map_append)
    also have "\<dots> = map ?g [0..<n]"
    proof (rule map_cong)
      fix x assume "x \<in> set [0..<n]"
      then have "x < n" by simp
      from noT [OF this] show "PA ! x = ?g x" by auto
    qed simp
    finally have "rs = map ?g [0..<n] @ [M, N]"
      unfolding rs sp(1) by simp
    then show ?thesis
      using True by (simp add: isTransposeRequired_sorted m2)
  qed
qed

lemma matmulInputs_rank3:
  assumes neg: "kDynamic c \<noteq> 1"
    and m: "maxInputRankOf (getRank (getType lhs)) (getRank (getType rhs)) = 3"
    and nb: "\<not> needsBatchDimBroadcast 3 (getRankBroadcastedShape c 3 lhs False)
                 (getRankBroadcastedShape c 3 rhs True)"
    and mi: "matmulInputs c lhs rhs = Inr (ml, mr)"
  shows "makeShapeTorchCompatible c (getShape (getType ml)) = getRankBroadcastedShape c 3 lhs False"
    and "makeShapeTorchCompatible c (getShape (getType mr)) = getRankBroadcastedShape c 3 rhs True"
proof -
  define L where "L = getRankBroadcastedShape c 3 lhs False"
  define R where "R = getRankBroadcastedShape c 3 rhs True"
  define rbL where "rbL = (if getRank (getType lhs) = 3 then lhs
      else ReshapeOp (RankedTensorType (makeShapeLLVMCompatible c L)
             (getElementType (getType lhs))) lhs L)"
  define rbR where "rbR = (if getRank (getType rhs) = 3 then rhs
      else ReshapeOp (RankedTensorType (makeShapeLLVMCompatible c R)
             (getElementType (getType rhs))) rhs R)"
  have lm: "getRank (getType lhs) \<le> 3" and rm: "getRank (getType rhs) \<le> 3"
    using maxInputRankOf_bounds(1) [where lhsRank = "getRank (getType lhs)"
            and rhsRank = "getRank (getType rhs)"]
          maxInputRankOf_bounds(2) [where lhsRank = "getRank (getType lhs)"
            and rhsRank = "getRank (getType rhs)"] m
    by simp_all
  have rkL: "getRank (getType rbL) = 3" and rkR: "getRank (getType rbR) = 3"
    unfolding rbL_def rbR_def L_def R_def
    using rankBroadcasted_rank [OF lm] rankBroadcasted_rank [OF rm] by simp_all
  have shL: "makeShapeTorchCompatible c (getShape (getType rbL)) = L"
    unfolding rbL_def L_def using rankBroadcasted_shape [OF neg lm] by simp
  have shR: "makeShapeTorchCompatible c (getShape (getType rbR)) = R"
    unfolding rbR_def R_def using rankBroadcasted_shape [OF neg rm] by simp
  have r3: "reshapeUpTo3DTensor c t = Inr t" if "getRank (getType t) = 3" for t :: "'a val"
    using that by (simp add: reshapeUpTo3DTensor_def Let_def)
  have "matmulInputs c lhs rhs = Inr (rbL, rbR)"
    unfolding matmulInputs_def Let_def m
    unfolding L_def [symmetric] R_def [symmetric]
    unfolding rbL_def [symmetric] rbR_def [symmetric]
    using nb [folded L_def R_def] r3 [OF rkL] r3 [OF rkR] by simp
  then have "ml = rbL" "mr = rbR"
    using mi by simp_all
  then show "makeShapeTorchCompatible c (getShape (getType ml)) = getRankBroadcastedShape c 3 lhs False"
    and "makeShapeTorchCompatible c (getShape (getType mr)) = getRankBroadcastedShape c 3 rhs True"
    using shL shR by (simp_all add: L_def R_def)
qed

lemma performMatmul_output_shape_cases:
  assumes eq: "getElementType (getType lhs) = getElementType (getType rhs)"
    and m: "maxInputRankOf (getRank (getType lhs)) (getRank (getType rhs)) = m"
    and L: "getRankBroadcastedShape c m lhs False = L"
    and R: "getRankBroadcastedShape c m rhs True = R"
    and mi: "matmulInputs c lhs rhs = Inr (ml, mr)"
    and b: "makeShapeTorchCompatible c (getShape (getType ml)) ! 0
              = makeShapeTorchCompatible c (getShape (getType mr)) ! 0"
  shows "\<exists>out. performMatmul c lhs rhs = Inr out
           \<and> getShape (getType out) =
               (if m = 3 \<and> \<not> needsBatchDimBroadcast m L R
                then makeShapeLLVMCompatible c
                       [makeShapeTorchCompatible c (getShape (getType ml)) ! 0,
                        makeShapeTorchCompatible c (getShape (getType ml)) ! 1,
                        makeShapeTorchCompatible c (getShape (getType mr)) ! 2]
                else (case computeOpShape c m (getRank (getType lhs)) (getRank (getType rhs))
                             (makeShapeTorchCompatible c (getShape (getType lhs)))
                             (makeShapeTorchCompatible c (getShape (getType rhs))) L R of
                        (rs, ds, ts) \<Rightarrow>
                          makeShapeLLVMCompatible c
                            (if isTransposeRequired (map int ds) then ts else rs)))"
  using eq mi b
  unfolding performMatmul_def Let_def m L R
  by (auto simp: transposeIfRequired_def split: prod.splits)

lemma getRankBroadcastedShape_static:
  assumes neg: "markersNegative c" and st: "\<forall>d\<in>set (batch @ [x, y]). 0 \<le> d"
    and len: "length batch \<le> n"
  shows "getRankBroadcastedShape c (int (n + 2)) (Operand nm (RankedTensorType (batch @ [x, y]) e))
           isRHS = padLeading n batch @ [x, y]"
proof -
  have "nat (int n - int (length batch)) = n - length batch"
    by simp
  then show ?thesis
    using len static_shape_ids(1) [OF neg st]
    by (auto simp: getRankBroadcastedShape_def Let_def getRank_def padLeading_def)
qed

text \<open>
  Claim C1. For operands of static shapes \<open>[...,M,K]\<close> and \<open>[...,K,N]\<close> and equal element
  type whose leading dimensions are broadcast-compatible, \<^verbatim>\<open>performMatmul\<close> succeeds and
  the static shape of its output is the broadcast of the leading dimensions followed by
  \<open>M\<close> and \<open>N\<close>.
\<close>

theorem matmul_output_shape:
  assumes neg: "markersNegative c"
    and sA: "\<forall>d\<in>set (batchA @ [M, K]). 0 \<le> d"
    and sB: "\<forall>d\<in>set (batchB @ [K, N]). 0 \<le> d"
    and compat: "broadcastCompatible batchA batchB"
  shows "\<exists>out. performMatmul c (Operand a (RankedTensorType (batchA @ [M, K]) e) :: 'd val)
                  (Operand b (RankedTensorType (batchB @ [K, N]) e)) = Inr out
           \<and> getShape (getType out) = broadcastShape batchA batchB @ [M, N]"
proof -
  define n where "n = max (length batchA) (length batchB)"
  define PA where "PA = padLeading n batchA"
  define PB where "PB = padLeading n batchB"
  let ?lhs = "Operand a (RankedTensorType (batchA @ [M, K]) e) :: 'd val"
  let ?rhs = "Operand b (RankedTensorType (batchB @ [K, N]) e) :: 'd val"
  let ?g = "\<lambda>x y :: int. if x = 1 then y else x"
  have kd: "kDynamic c \<noteq> 1"
    using neg by (auto simp: markersNegative_def)
  have la: "length PA = n" and lb: "length PB = n"
    by (simp_all add: PA_def PB_def padLeading_def n_def)
  have sa: "\<forall>d\<in>set PA. 0 \<le> d" and sb: "\<forall>d\<in>set PB. 0 \<le> d"
    using sA sB by (auto simp: PA_def PB_def padLeading_def)
  have MN: "0 \<le> M" "0 \<le> N"
    using sA sB by simp_all
  have bs: "broadcastShape batchA batchB = map2 ?g PA PB"
    by (simp add: broadcastShape_def Let_def PA_def PB_def n_def)
  have "0 \<le> ?g x y" if "(x, y) \<in> set (zip PA PB)" for x y
    using set_zip_leftD [OF that] set_zip_rightD [OF that] sa sb by auto
  then have sbs: "\<forall>d\<in>set (map2 ?g PA PB @ [M, N]). 0 \<le> d"
    using MN by auto
  have rkl: "getRank (getType ?lhs) = int (length batchA + 2)"
    and rkr: "getRank (getType ?rhs) = int (length batchB + 2)"
    by (simp_all add: getRank_def)
  have m: "maxInputRankOf (getRank (getType ?lhs)) (getRank (getType ?rhs)) = int (n + 2)"
    unfolding rkl rkr by (auto simp: maxInputRankOf_def Let_def n_def)
  have L: "getRankBroadcastedShape c (int (n + 2)) ?lhs False = PA @ [M, K]"
    unfolding PA_def by (rule getRankBroadcastedShape_static [OF neg sA]) (simp add: n_def)
  have R: "getRankBroadcastedShape c (int (n + 2)) ?rhs True = PB @ [K, N]"
    unfolding PB_def by (rule getRankBroadcastedShape_static [OF neg sB]) (simp add: n_def)
  obtain ml mr where mi: "matmulInputs c ?lhs ?rhs = Inr (ml, mr)"
    using matmulInputs_total [of ?lhs ?rhs c] by (cases "matmulInputs c ?lhs ?rhs") auto
  note b = matmulInputs_batch [OF kd mi]
  obtain out where out: "performMatmul c ?lhs ?rhs = Inr out"
    and sh: "getShape (getType out) =
               (if int (n + 2) = 3 \<and> \<not> needsBatchDimBroadcast (int (n + 2)) (PA @ [M, K]) (PB @ [K, N])
                then makeShapeLLVMCompatible c
                       [makeShapeTorchCompatible c (getShape (getType ml)) ! 0,
                        makeShapeTorchCompatible c (getShape (getType ml)) ! 1,
                        makeShapeTorchCompatible c (getShape (getType mr)) ! 2]
                else (case computeOpShape c (int (n + 2)) (getRank (getType ?lhs))
                             (getRank (getType ?rhs))
                             (makeShapeTorchCompatible c (getShape (getType ?lhs)))
                             (makeShapeTorchCompatible c (getShape (getType ?rhs)))
                             (PA @ [M, K]) (PB @ [K, N]) of
                        (rs, ds, ts) \<Rightarrow>
                          makeShapeLLVMCompatible c
                            (if isTransposeRequired (map int ds) then ts else rs)))"
    using performMatmul_output_shape_cases [OF _ m L R mi] b by auto
  have "getShape (getType out) = map2 ?g PA PB @ [M, N]"
  proof (cases "n = 0")
    case True
    then have e: "PA = []" "PB = []" "batchA = []" "batchB = []"
      using la lb by (auto simp: n_def)
    have "makeShapeLLVMCompatible c [M, N] = [M, N]"
      using static_shape_ids(2) [OF neg, of "[M, N]"] MN by simp
    then show ?thesis
      using sh True static_shape_ids(1) [OF neg sA] static_shape_ids(1) [OF neg sB]
      by (simp add: e computeOpShape_def getRank_def isTransposeRequired_def)
  next
    case False
    then have n0: "0 < n" by simp
    show ?thesis
    proof (cases "int (n + 2) = 3 \<and> \<not> needsBatchDimBroadcast (int (n + 2)) (PA @ [M, K]) (PB @ [K, N])")
      case True
      then have n1: "n = 1" by simp
      have m3: "maxInputRankOf (getRank (getType ?lhs)) (getRank (getType ?rhs)) = 3"
        using m n1 by simp
      have nb: "\<not> needsBatchDimBroadcast 3 (getRankBroadcastedShape c 3 ?lhs False)
                   (getRankBroadcastedShape c 3 ?rhs True)"
        using True L R n1 by simp
      have mlS: "makeShapeTorchCompatible c (getShape (getType ml)) = PA @ [M, K]"
        and mrS: "makeShapeTorchCompatible c (getShape (getType mr)) = PB @ [K, N]"
        using matmulInputs_rank3 [OF kd m3 nb mi] L R n1 by simp_all
      obtain p where PA1: "PA = [p]"
        using la n1 by (cases PA) auto
      obtain q where PB1: "PB = [q]"
        using lb n1 by (cases PB) auto
      have "p = q"
        using True n1 by (simp add: needsBatchDimBroadcast_def PA1 PB1 split: if_splits)
      then have g: "map2 ?g PA PB = [p]"
        by (simp add: PA1 PB1)
      have ll: "makeShapeLLVMCompatible c [p, M, N] = [p, M, N]"
        using static_shape_ids(2) [OF neg, of "[p, M, N]"] MN sa by (simp add: PA1)
      have "getShape (getType out) = makeShapeLLVMCompatible c
                       [makeShapeTorchCompatible c (getShape (getType ml)) ! 0,
                        makeShapeTorchCompatible c (getShape (getType ml)) ! 1,
                        makeShapeTorchCompatible c (getShape (getType mr)) ! 2]"
        using sh unfolding if_P [OF True] .
      then have "getShape (getType out) = [p, M, N]"
        unfolding mlS mrS PA1 PB1 using ll by simp
      then show ?thesis
        unfolding g by simp
    next
      case nt: False
      obtain rs ds ts where cs:
        "computeOpShape c (int (n + 2)) (getRank (getType ?lhs)) (getRank (getType ?rhs))
           (makeShapeTorchCompatible c (getShape (getType ?lhs)))
           (makeShapeTorchCompatible c (getShape (getType ?rhs)))
           (PA @ [M, K]) (PB @ [K, N]) = (rs, ds, ts)"
        by (metis prod_cases3)
      have lr: "1 < getRank (getType ?lhs)" and rr: "1 < getRank (getType ?rhs)"
        by (simp_all add: getRank_def)
      have co: "(if isTransposeRequired (map int ds) then ts else rs) = map2 ?g PA PB @ [M, N]"
        by (rule computeOpShape_output [OF neg n0 la lb sa sb lr rr cs])
      have "getShape (getType out) =
              (case computeOpShape c (int (n + 2)) (getRank (getType ?lhs))
                             (getRank (getType ?rhs))
                             (makeShapeTorchCompatible c (getShape (getType ?lhs)))
                             (makeShapeTorchCompatible c (getShape (getType ?rhs)))
                             (PA @ [M, K]) (PB @ [K, N]) of
                        (rs, ds, ts) \<Rightarrow>
                          makeShapeLLVMCompatible c
                            (if isTransposeRequired (map int ds) then ts else rs))"
        using sh unfolding if_not_P [OF nt] .
      then have "getShape (getType out)
                   = makeShapeLLVMCompatible c (if isTransposeRequired (map int ds) then ts else rs)"
        unfolding cs by simp
      then show ?thesis
        unfolding co using static_shape_ids(2) [OF neg sbs] by simp
    qed
  qed
  then show ?thesis
    using out bs by simp
qed

text \<open>The three shapes the claim names.\<close>

theorem matmul_output_shape_witness:
  "map_sum id (getShape \<circ> getType)
     (performMatmul torchMlirMarkers
        (Operand ''A'' (RankedTensorType [3, 1, 5, 6] (FloatType 32)) :: int val)
        (Operand ''B'' (RankedTensorType [1, 4, 6, 7] (FloatType 32)))) = Inr [3, 4, 5, 7]
   \<and> map_sum id (getShape \<circ> getType)
     (performMatmul torchMlirMarkers
        (Operand ''A'' (RankedTensorType [14, 19] (FloatType 32)) :: int val)
        (Operand ''B'' (RankedTensorType [19, 28] (FloatType 32)))) = Inr [14, 28]
   \<and> map_sum id (getShape \<circ> getType)
     (performMatmul torchMlirMarkers
        (Operand ''A'' (RankedTensorType [4, 8, 16, 32] (FloatType 32)) :: int val)
        (Operand ''B'' (RankedTensorType [8, 32, 17] (FloatType 32)))) = Inr [4, 8, 16, 17]"
proof -
  note nm = markersNegative_torchMlirMarkers
  have c1: "broadcastCompatible [3, 1] [1, 4]" and b1: "broadcastShape [3, 1] [1, 4] = [3, 4]"
    and c2: "broadcastCompatible [] []" and b2: "broadcastShape [] [] = []"
    and c3: "broadcastCompatible [4, 8] [8]" and b3: "broadcastShape [4, 8] [8] = [4, 8]"
    by (simp_all add: broadcastCompatible_def broadcastShape_def padLeading_def)
  have s1: "\<forall>d\<in>set ([3, 1] @ [5, 6 :: int]). 0 \<le> d" "\<forall>d\<in>set ([1, 4] @ [6, 7 :: int]). 0 \<le> d"
    and s2: "\<forall>d\<in>set ([] @ [14, 19 :: int]). 0 \<le> d" "\<forall>d\<in>set ([] @ [19, 28 :: int]). 0 \<le> d"
    and s3: "\<forall>d\<in>set ([4, 8] @ [16, 32 :: int]). 0 \<le> d" "\<forall>d\<in>set ([8] @ [32, 17 :: int]). 0 \<le> d"
    by simp_all
  have e1: "\<exists>out. performMatmul torchMlirMarkers
               (Operand ''A'' (RankedTensorType ([3, 1] @ [5, 6]) (FloatType 32)) :: int val)
               (Operand ''B'' (RankedTensorType ([1, 4] @ [6, 7]) (FloatType 32))) = Inr out
             \<and> getShape (getType out) = broadcastShape [3, 1] [1, 4] @ [5, 7]"
    by (rule matmul_output_shape [OF nm s1 c1])
  have e2: "\<exists>out. performMatmul torchMlirMarkers
               (Operand ''A'' (RankedTensorType ([] @ [14, 19]) (FloatType 32)) :: int val)
               (Operand ''B'' (RankedTensorType ([] @ [19, 28]) (FloatType 32))) = Inr out
             \<and> getShape (getType out) = broadcastShape [] [] @ [14, 28]"
    by (rule matmul_output_shape [OF nm s2 c2])
  have e3: "\<exists>out. performMatmul torchMlirMarkers
               (Operand ''A'' (RankedTensorType ([4, 8] @ [16, 32]) (FloatType 32)) :: int val)
               (Operand ''B'' (RankedTensorType ([8] @ [32, 17]) (FloatType 32))) = Inr out
             \<and> getShape (getType out) = broadcastShape [4, 8] [8] @ [16, 17]"
    by (rule matmul_output_shape [OF nm s3 c3])
  show ?thesis
    using e1 e2 e3 by (auto simp: b1 b2 b3)
qed

end
